theory Spec2Isabelle
  imports Complex_Main "HOL-Library.Sublist"
begin

section \<open>Failures of the C++ program, as values\<close>

text \<open>
  The renderer is C++: a null pointer that is dereferenced, an index outside a
  \<open>std::array\<close> and a \<open>static_cast\<close> to the wrong class are undefined behaviour.
  The model makes each of them a value of \<open>error\<close>, so a run that reaches one is
  visible as \<open>Inl\<close>. A division whose divisor is zero is an error value as well,
  so that "never divides by zero" can be stated. The \<open>float\<close> of the source is
  idealised as \<open>real\<close>: rounding, infinities and NaN are not modelled.
\<close>

datatype error = DivisionByZero | NullDereference | OutOfBounds | BadCast

definition fdiv :: "real \<Rightarrow> real \<Rightarrow> error + real" where
  "fdiv a b = (if b = 0 then Inl DivisionByZero else Inr (a / b))"

section \<open>include/gleam/math/vector3.hpp\<close>

text \<open>The class has the three public fields x, y and z.\<close>

record Vector3 =
  v3_x :: real
  v3_y :: real
  v3_z :: real

text \<open>\<open>Vector3(float x, float y, float z)\<close> and \<open>Vector3(float value)\<close>.\<close>

definition mk_Vector3 :: "real \<Rightarrow> real \<Rightarrow> real \<Rightarrow> Vector3" where
  "mk_Vector3 a b c = \<lparr>v3_x = a, v3_y = b, v3_z = c\<rparr>"

definition Vector3_splat :: "real \<Rightarrow> Vector3" where
  "Vector3_splat a = mk_Vector3 a a a"

definition Zero :: Vector3 where
  "Zero = Vector3_splat 0"

text \<open>\<open>operator*=(float n)\<close>: the updated vector.\<close>

definition mul_assign :: "Vector3 \<Rightarrow> real \<Rightarrow> Vector3" where
  "mul_assign v n = v\<lparr>v3_x := v3_x v * n, v3_y := v3_y v * n, v3_z := v3_z v * n\<rparr>"

text \<open>The friend \<open>operator*(const Vector3& v, float n)\<close>: a new vector.\<close>

definition mul_scalar :: "Vector3 \<Rightarrow> real \<Rightarrow> Vector3" where
  "mul_scalar v n = mk_Vector3 (v3_x v * n) (v3_y v * n) (v3_z v * n)"

definition Dot :: "Vector3 \<Rightarrow> Vector3 \<Rightarrow> real" where
  "Dot a b = v3_x a * v3_x b + v3_y a * v3_y b + v3_z a * v3_z b"

text \<open>
  Modelled from the spec: the bodies of \<open>Vector3::Length\<close> and
  \<open>Vector3::LengthSquared\<close> are missing (vector3.hpp only declares them). They
  are modelled after their doc comments, "the length (magnitude) of the vector"
  and "the squared length of the vector".
\<close>

definition LengthSquared :: "Vector3 \<Rightarrow> real" where
  "LengthSquared v = v3_x v * v3_x v + v3_y v * v3_y v + v3_z v * v3_z v"

definition Length :: "Vector3 \<Rightarrow> real" where
  "Length v = sqrt (LengthSquared v)"

text \<open>
  The member \<open>Vector3::Normalize\<close>: returns \<open>*this\<close> untouched when the length is
  zero, and \<open>*this *= (1.0f / len)\<close> otherwise.
\<close>

definition Normalize_member :: "Vector3 \<Rightarrow> error + Vector3" where
  "Normalize_member v =
     (let len = Length v in
      if len = 0 then Inr v
      else (case fdiv 1 len of
              Inl e \<Rightarrow> Inl e
            | Inr n \<Rightarrow> Inr (mul_assign v n)))"

text \<open>
  The free function \<open>Normalize\<close>: \<open>Vector3::Zero()\<close> when the length is zero, and
  \<open>v * (1.0f / len)\<close> otherwise.
\<close>

definition Normalize :: "Vector3 \<Rightarrow> error + Vector3" where
  "Normalize v =
     (let len = Length v in
      if len = 0 then Inr Zero
      else (case fdiv 1 len of
              Inl e \<Rightarrow> Inl e
            | Inr n \<Rightarrow> Inr (mul_scalar v n)))"

section \<open>Values handed to the shader programs\<close>

text \<open>
  The headers of \<open>Color\<close>, \<open>Vector2\<close>, \<open>Vector4\<close>, \<open>Matrix3\<close> and \<open>Matrix4\<close> are not
  among the source files. The vectors and the colour are records of their
  components; a matrix is the list of its elements, and every operation on
  matrices is a parameter of the model (see \<open>externals\<close> below). Private
  members lose their trailing underscore (\<open>touched_\<close> is \<open>touched\<close>), which a
  name cannot end with here.
\<close>

record Color =
  c_r :: real
  c_g :: real
  c_b :: real

record Vector2 =
  v2_x :: real
  v2_y :: real

record Vector4 =
  v4_x :: real
  v4_y :: real
  v4_z :: real
  v4_w :: real

type_synonym Matrix3 = "real list"
type_synonym Matrix4 = "real list"

definition mk_Color :: "real \<Rightarrow> real \<Rightarrow> real \<Rightarrow> Color" where
  "mk_Color a b c = \<lparr>c_r = a, c_g = b, c_b = c\<rparr>"

text \<open>
  Modelled from the spec: \<open>Color::operator*\<close> (color.hpp is missing). The spec
  speaks of "color \<times> intensity" and of contributions that add up; both act on
  each channel.
\<close>

definition color_scale :: "Color \<Rightarrow> real \<Rightarrow> Color" where
  "color_scale c n = mk_Color (c_r c * n) (c_g c * n) (c_b c * n)"

definition color_add :: "Color \<Rightarrow> Color \<Rightarrow> Color" where
  "color_add a b = mk_Color (c_r a + c_r b) (c_g a + c_g b) (c_b a + c_b b)"

text \<open>\<open>Vector4(const Vector3&, float)\<close> and the explicit \<open>Vector3(const Vector4&)\<close>.\<close>

definition mk_Vector4 :: "Vector3 \<Rightarrow> real \<Rightarrow> Vector4" where
  "mk_Vector4 v w = \<lparr>v4_x = v3_x v, v4_y = v3_y v, v4_z = v3_z v, v4_w = w\<rparr>"

definition Vector3_of :: "Vector4 \<Rightarrow> Vector3" where
  "Vector3_of v = mk_Vector3 (v4_x v) (v4_y v) (v4_z v)"

text \<open>\<open>UniformValue\<close> of shader_material.hpp, a \<open>std::variant\<close>.\<close>

datatype UniformValue =
    UInt int
  | UFloat real
  | UColor Color
  | UMatrix3 Matrix3
  | UMatrix4 Matrix4
  | UVector2 Vector2
  | UVector3 Vector3
  | UVector4 Vector4

section \<open>The scene: lights, geometry, materials, meshes\<close>

datatype LightType =
    LightType_AmbientLight
  | LightType_DirectionalLight
  | LightType_PointLight
  | LightType_SpotLight

record Attenuation =
  att_base :: real
  att_linear :: real
  att_quadratic :: real

text \<open>
  The four light classes. Every light has \<open>color\<close> and \<open>intensity\<close>; the other
  members are those that \<open>UpdateLights\<close> reads after its \<open>static_cast\<close>.
\<close>

datatype Light =
    AmbientLight (light_color: Color) (intensity: real)
  | DirectionalLight (light_color: Color) (intensity: real) (Direction: Vector3)
  | PointLight (light_color: Color) (intensity: real) (GetWorldPosition: Vector3)
      (attenuation: Attenuation)
  | SpotLight (light_color: Color) (intensity: real) (Direction: Vector3)
      (GetWorldPosition: Vector3) (cone_angle: real) (penumbra: real)
      (attenuation: Attenuation)

fun GetType :: "Light \<Rightarrow> LightType" where
  "GetType (AmbientLight _ _) = LightType_AmbientLight"
| "GetType (DirectionalLight _ _ _) = LightType_DirectionalLight"
| "GetType (PointLight _ _ _ _) = LightType_PointLight"
| "GetType (SpotLight _ _ _ _ _ _ _) = LightType_SpotLight"

record Sphere =
  center :: Vector3
  radius :: real

text \<open>
  Of \<open>GeometryPrimitiveType\<close> the renderer tests \<open>Lines\<close> and \<open>LineLoop\<close>; every
  other value is drawn as triangles. Of \<open>GeometryAttributeType\<close> only \<open>Position\<close>
  occurs in the source files.
\<close>

datatype GeometryPrimitiveType = Triangles | Lines | LineLoop

datatype GeometryAttributeType = Position | Normal | UV

record GeometryAttribute =
  attribute_type :: GeometryAttributeType
  item_size :: nat

record Geometry =
  Disposed :: bool
  VertexData :: "real list"
  IndexData :: "nat list"
  Attributes :: "GeometryAttribute list"
  BoundingSphere :: Sphere
  primitive :: GeometryPrimitiveType
  VertexCount :: nat

record Texture2D =
  texture_id :: nat
  GetTransform :: Matrix3

datatype MaterialType =
    MaterialType_FlatMaterial
  | MaterialType_PhongMaterial
  | MaterialType_ShaderMaterial

text \<open>
  The three material classes with the members that \<open>SetUniforms\<close> reads. A
  \<open>texture_map\<close> is a \<open>shared_ptr\<close> that may be null. The \<open>unordered_map\<close> of a
  shader material is the list of its entries in the order of iteration.
\<close>

datatype Material =
    FlatMaterial (opacity: real) (color: Color) (texture_map: "Texture2D option")
  | PhongMaterial (opacity: real) (color: Color) (specular: Color) (shininess: real)
      (texture_map: "Texture2D option")
  | ShaderMaterial (opacity: real) (uniforms: "(string \<times> UniformValue) list")

text \<open>
  A mesh in a render list stands for the node that the \<open>Mesh*\<close> points to, with
  the world transform it has when the frame is drawn.
\<close>

record Mesh =
  geometry :: Geometry
  material :: Material
  GetWorldTransform :: Matrix4

datatype FogType = FogType_LinearFog | FogType_ExponentialFog

datatype Fog =
    LinearFog (fog_color: Color) (fog_near: real) (fog_far: real)
  | ExponentialFog (fog_color: Color) (fog_density: real)

fun Fog_GetType :: "Fog \<Rightarrow> FogType" where
  "Fog_GetType (LinearFog _ _ _) = FogType_LinearFog"
| "Fog_GetType (ExponentialFog _ _) = FogType_ExponentialFog"

datatype Node = MeshNode Mesh | LightNode Light

record Scene =
  fog :: "Fog option"
  touched :: bool
  children :: "Node list"

record Camera =
  projection_transform :: Matrix4
  view_transform :: Matrix4

record RenderLists =
  Opaque :: "Mesh list"
  Transparent :: "Mesh list"
  Lights :: "Light list"

text \<open>
  \<open>ProgramAttributes\<close> (core/program_attributes.hpp is missing): the members that
  the renderer and the program cache read.
\<close>

record ProgramAttributes =
  attrs_type :: MaterialType
  key :: string
  lights :: bool
  directional_lights :: bool
  point_lights :: bool
  spot_lights :: bool
  flat_shaded :: bool
  attrs_texture_map :: bool

section \<open>src/renderer/gl/gl\_program.hpp\<close>

record GLProgram =
  program :: nat
  has_errors :: bool

definition IsValid :: "GLProgram \<Rightarrow> bool" where
  "IsValid p = (\<not> has_errors p \<and> program p > 0)"

definition GLProgram_Id :: "GLProgram \<Rightarrow> nat" where
  "GLProgram_Id p = program p"

section \<open>The renderer's state\<close>

text \<open>
  \<open>GLPrograms\<close>: the map from a key to the program it owns. A \<open>GLProgram*\<close> is the
  index of the object in \<open>objects\<close>, the list of all programs ever constructed, in
  the order of construction; \<open>None\<close> is \<open>nullptr\<close>. \<open>shader_lib_requests\<close> is the
  list of the calls of \<open>shader_lib_.GetShaderSource\<close> made so far.
\<close>

type_synonym ShaderInfo = string

record GLPrograms =
  programs :: "string \<rightharpoonup> nat"
  objects :: "GLProgram list"
  shader_lib_requests :: "ProgramAttributes list"

datatype LogLevel = Info | Warning

datatype log_arg = LogMesh Mesh | LogKey string

datatype log_entry = Log LogLevel string log_arg

record Plane =
  normal :: Vector3
  distance :: real

datatype Frustum = Frustum Plane Plane Plane Plane Plane Plane

text \<open>
  Modelled from the spec: \<open>GLState\<close> (gl_state.hpp and gl_state.cpp are missing).
  The spec gives the state tracker by its effects only; \<open>SetDepthMask\<close> and
  \<open>UseProgram\<close> set what they name. \<open>ProcessMaterial\<close> is a parameter.
\<close>

record GLState =
  depth_mask :: bool
  current_program :: nat

definition SetDepthMask :: "bool \<Rightarrow> GLState \<Rightarrow> GLState" where
  "SetDepthMask b s = s\<lparr>depth_mask := b\<rparr>"

definition UseProgram :: "nat \<Rightarrow> GLState \<Rightarrow> GLState" where
  "UseProgram i s = s\<lparr>current_program := i\<rparr>"

text \<open>
  What the renderer does to a shader program, to the buffer and texture binders
  and to OpenGL is recorded as the list of the calls it makes, in order. A draw
  call is recorded with the mesh it draws and with the state of the state tracker
  under which it is issued.
\<close>

datatype GLenum = GL_TRIANGLES | GL_LINES | GL_LINE_LOOP

datatype gl_call =
    SetUniform nat string UniformValue
  | SetUniformIfExists nat string UniformValue
  | UpdateUniforms nat
  | buffers_Bind Geometry
  | textures_Bind Texture2D
  | glClear
  | glDrawArrays GLenum nat nat
  | glDrawElements GLenum nat
  | ProcessScene_call

datatype event = Call gl_call | Draw Mesh GLState gl_call

fun uniform_name :: "gl_call \<Rightarrow> string option" where
  "uniform_name (SetUniform _ n _) = Some n"
| "uniform_name (SetUniformIfExists _ n _) = Some n"
| "uniform_name _ = None"

record Parameters =
  width :: int
  height :: int

record Impl =
  params :: Parameters
  render_lists :: RenderLists
  Impl_programs :: GLPrograms
  state :: GLState
  frustum :: Frustum
  rendered_objects_counter :: nat
  rendered_objects_per_frame :: nat
  logger :: "log_entry list"
  trace :: "event list"

section \<open>Code that is not among the source files\<close>

text \<open>
  The functions of the repository that the renderer calls and whose code is
  missing are parameters of the model: the matrix operations, the integers behind
  the enums (\<open>std::to_underlying\<close>), the constructor of \<open>ProgramAttributes\<close>, the
  shader library, the constructor of \<open>GLProgram\<close> (which compiles and links),
  \<open>GLState::ProcessMaterial\<close>, \<open>Frustum::SetWithViewProjection\<close>,
  \<open>Sphere::ApplyTransform\<close>, \<open>RenderLists::ProcessScene\<close>,
  \<open>Scene::UpdateTransformHierarchy\<close> and \<open>Camera::SetViewTransform\<close>.
\<close>

record externals =
  Matrix4_mul :: "Matrix4 \<Rightarrow> Matrix4 \<Rightarrow> Matrix4"
  Matrix4_mul_Vector4 :: "Matrix4 \<Rightarrow> Vector4 \<Rightarrow> Vector4"
  Matrix3_of :: "Matrix4 \<Rightarrow> Matrix3"
  Inverse :: "Matrix3 \<Rightarrow> Matrix3"
  Transpose :: "Matrix3 \<Rightarrow> Matrix3"
  LightType_underlying :: "LightType \<Rightarrow> int"
  FogType_underlying :: "FogType \<Rightarrow> int"
  ProgramAttributes_of :: "Material \<Rightarrow> RenderLists \<Rightarrow> Scene \<Rightarrow> ProgramAttributes"
  GetShaderSource :: "ProgramAttributes \<Rightarrow> ShaderInfo list"
  GLProgram_of :: "ShaderInfo list \<Rightarrow> GLProgram"
  ProcessMaterial :: "Material \<Rightarrow> GLState \<Rightarrow> GLState"
  SetWithViewProjection :: "Matrix4 \<Rightarrow> Frustum"
  ApplyTransform :: "Sphere \<Rightarrow> Matrix4 \<Rightarrow> Sphere"
  ProcessScene :: "RenderLists \<Rightarrow> Scene \<Rightarrow> RenderLists"
  UpdateTransformHierarchy :: "Scene \<Rightarrow> Scene"
  SetViewTransform :: "Camera \<Rightarrow> Camera"

section \<open>src/renderer/gl/gl\_programs.cpp\<close>

text \<open>
  \<open>GLPrograms::GetProgram\<close> returns the pointer, the cache after the call and the
  entries it writes to the log. On a miss it asks the shader library; with no
  sources it returns \<open>nullptr\<close> and stores nothing; otherwise it logs, constructs
  the program and stores it under the key.
\<close>

definition GetProgram ::
  "externals \<Rightarrow> GLPrograms \<Rightarrow> ProgramAttributes \<Rightarrow> nat option \<times> GLPrograms \<times> log_entry list" where
  "GetProgram ext ps attrs =
     (let k = key attrs in
      if programs ps k = None then
        let sources = GetShaderSource ext attrs;
            ps1 = ps\<lparr>shader_lib_requests := shader_lib_requests ps @ [attrs]\<rparr>
        in if sources = [] then (None, ps1, [])
           else
             let ps2 = ps1\<lparr>objects := objects ps1 @ [GLProgram_of ext sources],
                           programs := (programs ps1)(k \<mapsto> length (objects ps1))\<rparr>
             in (programs ps2 k, ps2, [Log Info ''Creating a new shader program {}'' (LogKey k)])
      else (programs ps k, ps, []))"

section \<open>src/renderer/gl/gl\_renderer\_impl.cpp\<close>

definition light_uniforms :: "string list" where
  "light_uniforms =
     [''u_Lights[0]'', ''u_Lights[1]'', ''u_Lights[2]'', ''u_Lights[3]'', ''u_Lights[4]'',
      ''u_Lights[5]'', ''u_Lights[6]'', ''u_Lights[7]'', ''u_Lights[8]'']"

subsection \<open>UpdateLights\<close>

text \<open>
  One turn of the loop over the lights, from the ambient colour and the slot index
  before it to those after it and the calls it makes on the program. The first
  thing the body does is \<open>light_uniforms[idx]\<close>, for every light, ambient or not; an
  index outside the \<open>std::array\<close> is undefined behaviour, here \<open>OutOfBounds\<close>.
  The name \<open>uniform\<close> is bound before \<open>idx\<close> is incremented.
\<close>

definition UpdateLights_body ::
  "externals \<Rightarrow> nat \<Rightarrow> Camera \<Rightarrow> Light \<Rightarrow> Color \<times> nat \<Rightarrow>
   error + (Color \<times> nat \<times> gl_call list)" where
  "UpdateLights_body ext prog camera light st =
     (case st of (ambient_light, idx) \<Rightarrow>
      if length light_uniforms \<le> idx then Inl OutOfBounds
      else
        let lcolor = light_color light;
            lintensity = intensity light;
            type = GetType light;
            uniform = light_uniforms ! idx;
            ambient_light1 =
              (if type = LightType_AmbientLight then color_scale lcolor lintensity
               else ambient_light);
            calls0 =
              (if type = LightType_AmbientLight then []
               else [SetUniform prog (uniform @ ''.Type'')
                       (UInt (LightType_underlying ext type))]);
            calls1 =
              (if type = LightType_DirectionalLight then
                 [SetUniform prog (uniform @ ''.Color'')
                    (UColor (color_scale (light_color light) (intensity light))),
                  SetUniform prog (uniform @ ''.Direction'')
                    (UVector3 (Vector3_of (Matrix4_mul_Vector4 ext (view_transform camera)
                       (mk_Vector4 (Direction light) 0))))]
               else []);
            idx1 = (if type = LightType_DirectionalLight then idx + 1 else idx);
            calls2 =
              (if type = LightType_PointLight then
                 [SetUniform prog (uniform @ ''.Color'')
                    (UColor (color_scale (light_color light) (intensity light))),
                  SetUniform prog (uniform @ ''.Position'')
                    (UVector3 (Vector3_of (Matrix4_mul_Vector4 ext (view_transform camera)
                       (mk_Vector4 (GetWorldPosition light) 1)))),
                  SetUniform prog (uniform @ ''.Base'')
                    (UFloat (att_base (attenuation light))),
                  SetUniform prog (uniform @ ''.Linear'')
                    (UFloat (att_linear (attenuation light))),
                  SetUniform prog (uniform @ ''.Quadratic'')
                    (UFloat (att_quadratic (attenuation light)))]
               else []);
            idx2 = (if type = LightType_PointLight then idx1 + 1 else idx1);
            calls3 =
              (if type = LightType_SpotLight then
                 [SetUniform prog (uniform @ ''.Color'')
                    (UColor (color_scale (light_color light) (intensity light))),
                  SetUniform prog (uniform @ ''.Direction'')
                    (UVector3 (Vector3_of (Matrix4_mul_Vector4 ext (view_transform camera)
                       (mk_Vector4 (Direction light) 0)))),
                  SetUniform prog (uniform @ ''.Position'')
                    (UVector3 (Vector3_of (Matrix4_mul_Vector4 ext (view_transform camera)
                       (mk_Vector4 (GetWorldPosition light) 1)))),
                  SetUniform prog (uniform @ ''.ConeCos'')
                    (UFloat (cos (cone_angle light))),
                  SetUniform prog (uniform @ ''.PenumbraCos'')
                    (UFloat (cos (cone_angle light * (1 - penumbra light)))),
                  SetUniform prog (uniform @ ''.Base'')
                    (UFloat (att_base (attenuation light))),
                  SetUniform prog (uniform @ ''.Linear'')
                    (UFloat (att_linear (attenuation light))),
                  SetUniform prog (uniform @ ''.Quadratic'')
                    (UFloat (att_quadratic (attenuation light)))]
               else []);
            idx3 = (if type = LightType_SpotLight then idx2 + 1 else idx2)
        in Inr (ambient_light1, idx3, calls0 @ calls1 @ calls2 @ calls3))"

text \<open>The \<open>for\<close> loop over \<open>render_lists_->Lights()\<close>, in the order of the list.\<close>

fun UpdateLights_loop ::
  "externals \<Rightarrow> nat \<Rightarrow> Camera \<Rightarrow> Light list \<Rightarrow> Color \<times> nat \<Rightarrow>
   error + (Color \<times> nat \<times> gl_call list)" where
  "UpdateLights_loop ext prog camera [] st = Inr (fst st, snd st, [])"
| "UpdateLights_loop ext prog camera (light # rest) st =
     (case UpdateLights_body ext prog camera light st of
        Inl e \<Rightarrow> Inl e
      | Inr (ambient_light, idx, calls) \<Rightarrow>
          (case UpdateLights_loop ext prog camera rest (ambient_light, idx) of
             Inl e \<Rightarrow> Inl e
           | Inr (ambient_light1, idx1, calls1) \<Rightarrow> Inr (ambient_light1, idx1, calls @ calls1)))"

text \<open>
  \<open>UpdateLights\<close>: the loop from the colour black and slot 0, then the single
  \<open>program->SetUniform("u_AmbientLight", ambient_light)\<close>.
\<close>

definition UpdateLights ::
  "externals \<Rightarrow> nat \<Rightarrow> Camera \<Rightarrow> Light list \<Rightarrow> error + gl_call list" where
  "UpdateLights ext prog camera ls =
     (case UpdateLights_loop ext prog camera ls (mk_Color 0 0 0, 0) of
        Inl e \<Rightarrow> Inl e
      | Inr (ambient_light, idx, calls) \<Rightarrow>
          Inr (calls @ [SetUniform prog ''u_AmbientLight'' (UColor ambient_light)]))"

subsection \<open>SetUniforms\<close>

text \<open>
  The calls that \<open>SetUniforms\<close> makes, block by block in the order of the source.
  \<open>calls_then\<close> puts one block after another; the first failure ends the function.
\<close>

fun calls_then :: "error + gl_call list \<Rightarrow> error + gl_call list \<Rightarrow> error + gl_call list" where
  "calls_then (Inl e) _ = Inl e"
| "calls_then (Inr a) (Inl e) = Inl e"
| "calls_then (Inr a) (Inr b) = Inr (a @ b)"

text \<open>Lines 127 to 133: the four uniforms of every draw.\<close>

definition SetUniforms_common ::
  "externals \<Rightarrow> Impl \<Rightarrow> nat \<Rightarrow> Mesh \<Rightarrow> Camera \<Rightarrow> gl_call list" where
  "SetUniforms_common ext r prog mesh camera =
     (let model_view = Matrix4_mul ext (view_transform camera) (GetWorldTransform mesh) in
      [SetUniformIfExists prog ''u_Projection'' (UMatrix4 (projection_transform camera)),
       SetUniformIfExists prog ''u_ModelView'' (UMatrix4 model_view),
       SetUniformIfExists prog ''u_Opacity'' (UFloat (opacity (material mesh))),
       SetUniformIfExists prog ''u_Resolution''
         (UVector2 \<lparr>v2_x = real_of_int (width (params r)),
                    v2_y = real_of_int (height (params r))\<rparr>)])"

text \<open>Lines 135 to 151: the fog of the scene, if it has one.\<close>

definition SetUniforms_fog :: "externals \<Rightarrow> nat \<Rightarrow> Scene \<Rightarrow> gl_call list" where
  "SetUniforms_fog ext prog scene =
     (case fog scene of
        None \<Rightarrow> []
      | Some f \<Rightarrow>
          (let type = Fog_GetType f in
           [SetUniformIfExists prog ''u_Fog.Type'' (UInt (FogType_underlying ext type))] @
           (if type = FogType_LinearFog then
              [SetUniformIfExists prog ''u_Fog.Color'' (UColor (fog_color f)),
               SetUniformIfExists prog ''u_Fog.Near'' (UFloat (fog_near f)),
               SetUniformIfExists prog ''u_Fog.Far'' (UFloat (fog_far f))]
            else []) @
           (if type = FogType_ExponentialFog then
              [SetUniformIfExists prog ''u_Fog.Type'' (UInt (FogType_underlying ext type)),
               SetUniformIfExists prog ''u_Fog.Color'' (UColor (fog_color f)),
               SetUniformIfExists prog ''u_Fog.Density'' (UFloat (fog_density f))]
            else [])))"

text \<open>
  The three statements under \<open>if (attrs->texture_map)\<close>, the same for a flat and
  for a Phong material. \<open>m->texture_map->GetTransform()\<close> dereferences the
  \<open>shared_ptr\<close>.
\<close>

definition SetUniforms_texture :: "nat \<Rightarrow> Texture2D option \<Rightarrow> error + gl_call list" where
  "SetUniforms_texture prog tex =
     (case tex of
        None \<Rightarrow> Inl NullDereference
      | Some t \<Rightarrow>
          Inr [SetUniform prog ''u_TextureMap'' (UInt 0),
               SetUniform prog ''u_TextureTransform'' (UMatrix3 (GetTransform t)),
               textures_Bind t])"

text \<open>Lines 153 to 161: a flat material.\<close>

definition SetUniforms_flat :: "nat \<Rightarrow> ProgramAttributes \<Rightarrow> Material \<Rightarrow> error + gl_call list" where
  "SetUniforms_flat prog attrs mat =
     (if attrs_type attrs = MaterialType_FlatMaterial then
        (case mat of
           FlatMaterial op col tex \<Rightarrow>
             calls_then (Inr [SetUniform prog ''u_Color'' (UColor col)])
               (if attrs_texture_map attrs then SetUniforms_texture prog tex else Inr [])
         | _ \<Rightarrow> Inl BadCast)
      else Inr [])"

text \<open>
  Lines 163 to 180: a Phong material. The material's three uniforms and the normal
  matrix are set only under \<open>attrs->directional_lights || attrs->point_lights ||
  attrs->spot_lights\<close>.
\<close>

definition SetUniforms_phong ::
  "externals \<Rightarrow> nat \<Rightarrow> ProgramAttributes \<Rightarrow> Material \<Rightarrow> Matrix4 \<Rightarrow> error + gl_call list" where
  "SetUniforms_phong ext prog attrs mat model_view =
     (if attrs_type attrs = MaterialType_PhongMaterial then
        (case mat of
           PhongMaterial op col spec shin tex \<Rightarrow>
             calls_then
               (Inr (if directional_lights attrs \<or> point_lights attrs \<or> spot_lights attrs then
                       [SetUniform prog ''u_Material.DiffuseColor'' (UColor col),
                        SetUniform prog ''u_Material.SpecularColor'' (UColor spec),
                        SetUniform prog ''u_Material.Shininess'' (UFloat shin)] @
                       (if \<not> flat_shaded attrs then
                          [SetUniformIfExists prog ''u_NormalMatrix''
                             (UMatrix3 (Transpose ext (Inverse ext (Matrix3_of ext model_view))))]
                        else [])
                     else []))
               (if attrs_texture_map attrs then SetUniforms_texture prog tex else Inr [])
         | _ \<Rightarrow> Inl BadCast)
      else Inr [])"

text \<open>Lines 182 to 187: a shader material.\<close>

definition SetUniforms_shader :: "nat \<Rightarrow> ProgramAttributes \<Rightarrow> Material \<Rightarrow> error + gl_call list" where
  "SetUniforms_shader prog attrs mat =
     (if attrs_type attrs = MaterialType_ShaderMaterial then
        (case mat of
           ShaderMaterial op us \<Rightarrow> Inr (map (\<lambda>(name, v). SetUniform prog name v) us)
         | _ \<Rightarrow> Inl BadCast)
      else Inr [])"

definition SetUniforms ::
  "externals \<Rightarrow> Impl \<Rightarrow> nat \<Rightarrow> ProgramAttributes \<Rightarrow> Mesh \<Rightarrow> Camera \<Rightarrow> Scene \<Rightarrow>
   error + gl_call list" where
  "SetUniforms ext r prog attrs mesh camera scene =
     (let mat = material mesh;
          model_view = Matrix4_mul ext (view_transform camera) (GetWorldTransform mesh)
      in calls_then (Inr (SetUniforms_common ext r prog mesh camera))
          (calls_then (Inr (SetUniforms_fog ext prog scene))
            (calls_then (SetUniforms_flat prog attrs mat)
              (calls_then (SetUniforms_phong ext prog attrs mat model_view)
                (SetUniforms_shader prog attrs mat)))))"

subsection \<open>IsValidMesh and IsVisible\<close>

text \<open>\<open>IsValidMesh\<close>: the answer and the warning it logs. The first test that fires decides.\<close>

definition IsValidMesh :: "Mesh \<Rightarrow> bool \<times> log_entry list" where
  "IsValidMesh mesh =
     (let g = geometry mesh in
      if Disposed g then
        (False, [Log Warning ''Skipped rendering a mesh with disposed geometry {}'' (LogMesh mesh)])
      else if VertexData g = [] then
        (False, [Log Warning ''Skipped rendering a mesh with no geometry data {}'' (LogMesh mesh)])
      else if Attributes g = [] then
        (False,
         [Log Warning ''Skipped rendering a mesh with no geometry attributes {}'' (LogMesh mesh)])
      else (True, []))"

text \<open>
  Modelled from the spec: \<open>Frustum::IntersectsWithSphere\<close> and the signed distance
  of a plane to a point (frustum.cpp and plane.hpp are missing). The spec:
  "returns true iff, for every one of the 6 planes, the signed distance from the
  plane to the sphere center is \<ge> \<minus>radius". The signed distance is the usual
  one of a plane given by a normal and a distance.
\<close>

fun planes :: "Frustum \<Rightarrow> Plane list" where
  "planes (Frustum p0 p1 p2 p3 p4 p5) = [p0, p1, p2, p3, p4, p5]"

definition DistanceToPoint :: "Plane \<Rightarrow> Vector3 \<Rightarrow> real" where
  "DistanceToPoint p v = Dot (normal p) v + distance p"

definition IntersectsWithSphere :: "Frustum \<Rightarrow> Sphere \<Rightarrow> bool" where
  "IntersectsWithSphere f s =
     list_all (\<lambda>p. - radius s \<le> DistanceToPoint p (center s)) (planes f)"

definition IsVisible :: "externals \<Rightarrow> Impl \<Rightarrow> Mesh \<Rightarrow> bool" where
  "IsVisible ext r mesh =
     (let bounding_sphere =
            ApplyTransform ext (BoundingSphere (geometry mesh)) (GetWorldTransform mesh)
      in IntersectsWithSphere (frustum r) bounding_sphere)"

subsection \<open>RenderMesh, RenderObjects and Render\<close>

text \<open>
  \<open>RenderMesh\<close>, in two parts. \<open>RenderMesh_draw\<close> is lines 85 to 117, what is done
  once the program is known to be valid: the state of the material, the lights,
  the buffers, the uniforms, the draw call and the counter.
\<close>

definition RenderMesh_draw ::
  "externals \<Rightarrow> Impl \<Rightarrow> nat \<Rightarrow> GLProgram \<Rightarrow> ProgramAttributes \<Rightarrow> Mesh \<Rightarrow> Scene \<Rightarrow> Camera \<Rightarrow>
   error + Impl" where
  "RenderMesh_draw ext r p prog attrs mesh scene camera =
     (let g = geometry mesh;
          mat = material mesh;
          r2 = r\<lparr>state := ProcessMaterial ext mat (state r)\<rparr>
      in (case (if lights attrs \<and> Lights (render_lists r2) \<noteq> []
                then UpdateLights ext p camera (Lights (render_lists r2))
                else Inr []) of
            Inl e \<Rightarrow> Inl e
          | Inr light_calls \<Rightarrow>
              (case SetUniforms ext r2 p attrs mesh camera scene of
                 Inl e \<Rightarrow> Inl e
               | Inr uniform_calls \<Rightarrow>
                   let r3 = r2\<lparr>state := UseProgram (GLProgram_Id prog) (state r2)\<rparr>;
                       prim0 = GL_TRIANGLES;
                       prim1 = (if primitive g = Lines then GL_LINES else prim0);
                       prim2 = (if primitive g = LineLoop then GL_LINE_LOOP else prim1);
                       draw =
                         (if IndexData g = [] then glDrawArrays prim2 0 (VertexCount g)
                          else glDrawElements prim2 (length (IndexData g)))
                   in Inr (r3\<lparr>trace := trace r3 @
                                map Call (light_calls @ [buffers_Bind g] @
                                  uniform_calls @ [UpdateUniforms p]) @
                                [Draw mesh (state r3) draw],
                              rendered_objects_counter :=
                                rendered_objects_counter r3 + 1\<rparr>))))"

text \<open>
  \<open>RenderMesh\<close> from line 73: the two tests, the program, and
  \<open>program->IsValid()\<close> on what \<open>GetProgram\<close> returned, with no test for
  \<open>nullptr\<close> before it. A pointer is an index into the programs constructed so
  far; one that is not is as bad as \<open>nullptr\<close>.
\<close>

definition RenderMesh :: "externals \<Rightarrow> Impl \<Rightarrow> Mesh \<Rightarrow> Scene \<Rightarrow> Camera \<Rightarrow> error + Impl" where
  "RenderMesh ext r mesh scene camera =
     (case IsValidMesh mesh of (valid, warnings) \<Rightarrow>
      let r0 = r\<lparr>logger := logger r @ warnings\<rparr> in
      if \<not> valid then Inr r0
      else if \<not> IsVisible ext r0 mesh then Inr r0
      else
        let attrs = ProgramAttributes_of ext (material mesh) (render_lists r0) scene
        in (case GetProgram ext (Impl_programs r0) attrs of (prog, ps, entries) \<Rightarrow>
            let r1 = r0\<lparr>Impl_programs := ps, logger := logger r0 @ entries\<rparr> in
            (case prog of
               None \<Rightarrow> Inl NullDereference
             | Some p \<Rightarrow>
                 if length (objects ps) \<le> p then Inl NullDereference
                 else if \<not> IsValid (objects ps ! p) then Inr r1
                 else RenderMesh_draw ext r1 p (objects ps ! p) attrs mesh scene camera)))"

text \<open>One of the two \<open>for\<close> loops of \<open>RenderObjects\<close>.\<close>

fun RenderMeshes :: "externals \<Rightarrow> Impl \<Rightarrow> Mesh list \<Rightarrow> Scene \<Rightarrow> Camera \<Rightarrow> error + Impl" where
  "RenderMeshes ext r [] scene camera = Inr r"
| "RenderMeshes ext r (mesh # rest) scene camera =
     (case RenderMesh ext r mesh scene camera of
        Inl e \<Rightarrow> Inl e
      | Inr r1 \<Rightarrow> RenderMeshes ext r1 rest scene camera)"

definition RenderObjects :: "externals \<Rightarrow> Impl \<Rightarrow> Scene \<Rightarrow> Camera \<Rightarrow> error + Impl" where
  "RenderObjects ext r scene camera =
     (let r0 = r\<lparr>frustum := SetWithViewProjection ext
                   (Matrix4_mul ext (projection_transform camera) (view_transform camera))\<rparr>
      in (case RenderMeshes ext r0 (Opaque (render_lists r0)) scene camera of
            Inl e \<Rightarrow> Inl e
          | Inr r1 \<Rightarrow>
              let r2 = (if Transparent (render_lists r1) \<noteq> []
                        then r1\<lparr>state := SetDepthMask False (state r1)\<rparr> else r1)
              in (case RenderMeshes ext r2 (Transparent (render_lists r2)) scene camera of
                    Inl e \<Rightarrow> Inl e
                  | Inr r3 \<Rightarrow>
                      let r4 = r3\<lparr>state := SetDepthMask True (state r3)\<rparr> in
                      Inr (r4\<lparr>rendered_objects_per_frame := rendered_objects_counter r4,
                              rendered_objects_counter := 0\<rparr>))))"

text \<open>
  \<open>Render\<close>, in two parts. \<open>Render_rebuild\<close> is lines 248 to 256, all that comes
  before the call of \<open>RenderObjects\<close>: it clears the frame, updates the scene and
  the camera, and rebuilds the render lists if the scene is touched.
\<close>

definition Render_rebuild :: "externals \<Rightarrow> Impl \<Rightarrow> Scene \<Rightarrow> Camera \<Rightarrow> Impl \<times> Scene \<times> Camera" where
  "Render_rebuild ext r scene camera =
     (let r0 = r\<lparr>trace := trace r @ [Call glClear]\<rparr>;
          scene0 = UpdateTransformHierarchy ext scene;
          camera0 = SetViewTransform ext camera
      in if touched scene0 then
           (r0\<lparr>render_lists := ProcessScene ext (render_lists r0) scene0,
               trace := trace r0 @ [Call ProcessScene_call]\<rparr>,
            scene0\<lparr>touched := False\<rparr>, camera0)
         else (r0, scene0, camera0))"

definition Render :: "externals \<Rightarrow> Impl \<Rightarrow> Scene \<Rightarrow> Camera \<Rightarrow> error + (Impl \<times> Scene \<times> Camera)" where
  "Render ext r scene camera =
     (case Render_rebuild ext r scene camera of (r0, scene0, camera0) \<Rightarrow>
      (case RenderObjects ext r0 scene0 camera0 of
         Inl e \<Rightarrow> Inl e
       | Inr r1 \<Rightarrow> Inr (r1, scene0, camera0)))"

section \<open>The claims' own terms\<close>

text \<open>
  What the claims speak of and the code has no name for. Of a list of lights: the
  ambient lights, the contribution \<open>color \<times> intensity\<close> of a light, the sum of the
  contributions of the ambient lights, the contribution of the last ambient light
  (or the colour given when there is none), the number of lights that take a
  slot, and the names under which a list of calls sets the type of a light (the
  only integer uniforms that \<open>UpdateLights\<close> sets). Of a list of events: the draw
  calls, each with its mesh and with whether depth writes were enabled, and the
  number of calls of \<open>ProcessScene\<close>.
\<close>

definition is_ambient :: "Light \<Rightarrow> bool" where
  "is_ambient l = (GetType l = LightType_AmbientLight)"

definition contribution :: "Light \<Rightarrow> Color" where
  "contribution l = color_scale (light_color l) (intensity l)"

definition ambient_sum :: "Light list \<Rightarrow> Color" where
  "ambient_sum ls = foldr color_add (map contribution (filter is_ambient ls)) (mk_Color 0 0 0)"

fun ambient_last :: "Color \<Rightarrow> Light list \<Rightarrow> Color" where
  "ambient_last a [] = a"
| "ambient_last a (l # ls) = ambient_last (if is_ambient l then contribution l else a) ls"

definition slots_used :: "Light list \<Rightarrow> nat" where
  "slots_used ls = length (filter (\<lambda>l. \<not> is_ambient l) ls)"

fun type_slots :: "gl_call list \<Rightarrow> string list" where
  "type_slots [] = []"
| "type_slots (SetUniform p n (UInt t) # cs) = n # type_slots cs"
| "type_slots (c # cs) = type_slots cs"

fun draws :: "event list \<Rightarrow> (Mesh \<times> bool) list" where
  "draws [] = []"
| "draws (Call c # es) = draws es"
| "draws (Draw m s c # es) = (m, depth_mask s) # draws es"

definition scene_rebuilds :: "event list \<Rightarrow> nat" where
  "scene_rebuilds es = length (filter (\<lambda>e. e = Call ProcessScene_call) es)"



section \<open>Concrete inputs\<close>

text \<open>
  Stand-ins for the missing code, and small scenes on which the model is run.
\<close>

definition test_frustum :: Frustum where
  "test_frustum =
     Frustum \<lparr>normal = mk_Vector3 1 0 0, distance = 1\<rparr> \<lparr>normal = mk_Vector3 (-1) 0 0, distance = 1\<rparr>
             \<lparr>normal = mk_Vector3 0 (-1) 0, distance = 1\<rparr> \<lparr>normal = mk_Vector3 0 1 0, distance = 1\<rparr>
             \<lparr>normal = mk_Vector3 0 0 1, distance = 1\<rparr> \<lparr>normal = mk_Vector3 0 0 (-1), distance = 1\<rparr>"

definition test_attributes :: "Material \<Rightarrow> RenderLists \<Rightarrow> Scene \<Rightarrow> ProgramAttributes" where
  "test_attributes mat rl sc =
     \<lparr>attrs_type = (case mat of FlatMaterial _ _ _ \<Rightarrow> MaterialType_FlatMaterial
                      | PhongMaterial _ _ _ _ _ \<Rightarrow> MaterialType_PhongMaterial
                      | ShaderMaterial _ _ \<Rightarrow> MaterialType_ShaderMaterial),
      key = (case mat of FlatMaterial _ _ _ \<Rightarrow> ''flat''
               | PhongMaterial _ _ _ _ _ \<Rightarrow> ''phong''
               | ShaderMaterial _ _ \<Rightarrow> ''shader''),
      lights = (Lights rl \<noteq> []),
      directional_lights = list_ex (\<lambda>l. GetType l = LightType_DirectionalLight) (Lights rl),
      point_lights = list_ex (\<lambda>l. GetType l = LightType_PointLight) (Lights rl),
      spot_lights = list_ex (\<lambda>l. GetType l = LightType_SpotLight) (Lights rl),
      flat_shaded = False,
      attrs_texture_map = (case mat of FlatMaterial _ _ t \<Rightarrow> t \<noteq> None
                             | PhongMaterial _ _ _ _ t \<Rightarrow> t \<noteq> None
                             | ShaderMaterial _ _ \<Rightarrow> False)\<rparr>"

fun test_lists :: "Node list \<Rightarrow> RenderLists" where
  "test_lists [] = \<lparr>Opaque = [], Transparent = [], Lights = []\<rparr>"
| "test_lists (MeshNode m # ns) =
     (let rl = test_lists ns in
      if opacity (material m) < 1 then rl\<lparr>Transparent := m # Transparent rl\<rparr>
      else rl\<lparr>Opaque := m # Opaque rl\<rparr>)"
| "test_lists (LightNode l # ns) = (let rl = test_lists ns in rl\<lparr>Lights := l # Lights rl\<rparr>)"

definition test_externals :: externals where
  "test_externals =
     \<lparr>Matrix4_mul = (\<lambda>a b. a),
      Matrix4_mul_Vector4 = (\<lambda>m v. v),
      Matrix3_of = (\<lambda>m. take 9 m),
      Inverse = (\<lambda>m. m),
      Transpose = (\<lambda>m. rev m),
      LightType_underlying =
        (\<lambda>t. case t of LightType_AmbientLight \<Rightarrow> 0 | LightType_DirectionalLight \<Rightarrow> 1
              | LightType_PointLight \<Rightarrow> 2 | LightType_SpotLight \<Rightarrow> 3),
      FogType_underlying = (\<lambda>t. case t of FogType_LinearFog \<Rightarrow> 0 | FogType_ExponentialFog \<Rightarrow> 1),
      ProgramAttributes_of = test_attributes,
      GetShaderSource = (\<lambda>attrs. if key attrs = ''shader'' then [] else [''vertex'', ''fragment'']),
      GLProgram_of = (\<lambda>sources. \<lparr>program = length sources, has_errors = False\<rparr>),
      ProcessMaterial = (\<lambda>mat s. s),
      SetWithViewProjection = (\<lambda>m. test_frustum),
      ApplyTransform = (\<lambda>s m. s),
      ProcessScene = (\<lambda>rl sc. test_lists (children sc)),
      UpdateTransformHierarchy = (\<lambda>sc. sc),
      SetViewTransform = (\<lambda>c. c)\<rparr>"

definition test_camera :: Camera where
  "test_camera = \<lparr>projection_transform = [], view_transform = []\<rparr>"

definition red_ambient :: Light where
  "red_ambient = AmbientLight (mk_Color 1 0 0) 1"

definition green_ambient :: Light where
  "green_ambient = AmbientLight (mk_Color 0 1 0) 1"

definition white_directional :: Light where
  "white_directional = DirectionalLight (mk_Color 1 1 1) 1 (mk_Vector3 0 0 1)"

definition nine_directional :: "Light list" where
  "nine_directional =
     [white_directional, white_directional, white_directional, white_directional,
      white_directional, white_directional, white_directional, white_directional,
      white_directional]"

definition empty_programs :: GLPrograms where
  "empty_programs = \<lparr>programs = Map.empty, objects = [], shader_lib_requests = []\<rparr>"


definition shader_attrs :: ProgramAttributes where
  "shader_attrs =
     \<lparr>attrs_type = MaterialType_ShaderMaterial, key = ''shader'', lights = False,
      directional_lights = False, point_lights = False, spot_lights = False,
      flat_shaded = False, attrs_texture_map = False\<rparr>"


definition lit_phong_attrs :: ProgramAttributes where
  "lit_phong_attrs =
     \<lparr>attrs_type = MaterialType_PhongMaterial, key = ''phong'', lights = True,
      directional_lights = True, point_lights = False, spot_lights = False,
      flat_shaded = False, attrs_texture_map = True\<rparr>"

definition unlit_phong_attrs :: ProgramAttributes where
  "unlit_phong_attrs =
     \<lparr>attrs_type = MaterialType_PhongMaterial, key = ''phong'', lights = False,
      directional_lights = False, point_lights = False, spot_lights = False,
      flat_shaded = False, attrs_texture_map = False\<rparr>"

definition test_geometry :: Geometry where
  "test_geometry =
     \<lparr>Disposed = False, VertexData = [0, 0, 0, 1, 0, 0, 0, 1, 0], IndexData = [],
      Attributes = [\<lparr>attribute_type = Position, item_size = 3\<rparr>],
      BoundingSphere = \<lparr>center = mk_Vector3 0 0 0, radius = 1\<rparr>,
      primitive = Triangles, VertexCount = 3\<rparr>"

definition flat_mesh :: Mesh where
  "flat_mesh =
     \<lparr>geometry = test_geometry, material = FlatMaterial 1 (mk_Color 1 0 0) None,
      GetWorldTransform = []\<rparr>"

definition phong_mesh :: Mesh where
  "phong_mesh =
     \<lparr>geometry = test_geometry,
      material = PhongMaterial (1 / 2) (mk_Color 1 1 1) (mk_Color 0 0 1) 32 None,
      GetWorldTransform = []\<rparr>"

definition textured_phong_mesh :: Mesh where
  "textured_phong_mesh =
     \<lparr>geometry = test_geometry,
      material = PhongMaterial 1 (mk_Color 1 1 1) (mk_Color 0 0 1) 32
        (Some \<lparr>texture_id = 7, GetTransform = [1, 0, 0, 0, 1, 0, 0, 0, 1]\<rparr>),
      GetWorldTransform = [1, 2, 3, 4, 5, 6, 7, 8, 9, 10]\<rparr>"

definition shader_mesh :: Mesh where
  "shader_mesh =
     \<lparr>geometry = test_geometry, material = ShaderMaterial 1 [], GetWorldTransform = []\<rparr>"

definition disposed_mesh :: Mesh where
  "disposed_mesh = flat_mesh\<lparr>geometry := test_geometry\<lparr>Disposed := True\<rparr>\<rparr>"

definition boundary_mesh :: Mesh where
  "boundary_mesh =
     flat_mesh\<lparr>geometry :=
       test_geometry\<lparr>BoundingSphere := \<lparr>center = mk_Vector3 2 0 0, radius = 1\<rparr>\<rparr>\<rparr>"

definition far_mesh :: Mesh where
  "far_mesh =
     flat_mesh\<lparr>geometry :=
       test_geometry\<lparr>BoundingSphere := \<lparr>center = mk_Vector3 3 0 0, radius = 1\<rparr>\<rparr>\<rparr>"

definition test_scene :: Scene where
  "test_scene = \<lparr>fog = None, touched = True, children = [MeshNode flat_mesh, MeshNode phong_mesh]\<rparr>"

definition untouched_scene :: Scene where
  "untouched_scene = test_scene\<lparr>touched := False\<rparr>"

definition test_renderer :: Impl where
  "test_renderer =
     \<lparr>params = \<lparr>width = 800, height = 600\<rparr>,
      render_lists = \<lparr>Opaque = [], Transparent = [], Lights = []\<rparr>,
      Impl_programs = empty_programs,
      state = \<lparr>depth_mask = True, current_program = 0\<rparr>,
      frustum = test_frustum,
      rendered_objects_counter = 0,
      rendered_objects_per_frame = 0,
      logger = [],
      trace = []\<rparr>"

definition listed_renderer :: Impl where
  "listed_renderer =
     test_renderer\<lparr>render_lists := \<lparr>Opaque = [flat_mesh], Transparent = [phong_mesh], Lights = []\<rparr>\<rparr>"


text \<open>
  A state tracker whose \<open>ProcessMaterial\<close> enables depth writes for every material.
\<close>

definition masking_externals :: externals where
  "masking_externals = test_externals\<lparr>ProcessMaterial := (\<lambda>mat s. s\<lparr>depth_mask := True\<rparr>)\<rparr>"

section \<open>Properties of Vector3\<close>

lemma LengthSquared_nonneg: "0 \<le> LengthSquared v"
  by (simp add: LengthSquared_def)

lemma Length_zero_iff: "Length v = 0 \<longleftrightarrow> v = Zero"
proof
  assume "Length v = 0"
  then have sq: "v3_x v * v3_x v + v3_y v * v3_y v + v3_z v * v3_z v = 0"
    by (simp add: Length_def LengthSquared_def)
  have a: "0 \<le> v3_x v * v3_x v" and b: "0 \<le> v3_y v * v3_y v" and c: "0 \<le> v3_z v * v3_z v"
    by simp_all
  from sq a b c have "v3_x v * v3_x v = 0" "v3_y v * v3_y v = 0" "v3_z v * v3_z v = 0"
    by linarith+
  then have "v3_x v = 0" "v3_y v = 0" "v3_z v = 0"
    by simp_all
  then show "v = Zero"
    by (simp add: Zero_def Vector3_splat_def mk_Vector3_def)
next
  assume "v = Zero"
  then show "Length v = 0"
    by (simp add: Zero_def Vector3_splat_def mk_Vector3_def Length_def LengthSquared_def)
qed

text \<open>
  Claim C10. Normalizing never divides by zero. For a vector of length zero the
  member \<open>Normalize\<close> returns the vector as it is, which is the zero vector, and
  the free \<open>Normalize\<close> returns the zero vector. For a vector of nonzero length
  both return the vector scaled by \<open>1 / length\<close>.
\<close>

theorem Normalize_never_divides_by_zero:
  "(Length v = 0 \<longrightarrow>
      Normalize_member v = Inr v \<and> v = Zero \<and> Normalize v = Inr Zero) \<and>
   (Length v \<noteq> 0 \<longrightarrow>
      Normalize_member v = Inr (mul_assign v (1 / Length v)) \<and>
      Normalize v = Inr (mul_scalar v (1 / Length v))) \<and>
   (\<forall>e. Normalize_member v \<noteq> Inl e \<and> Normalize v \<noteq> Inl e)"
  by (simp add: Normalize_member_def Normalize_def fdiv_def Let_def Length_zero_iff)

theorem Normalize_never_divides_by_zero_witness:
  "Length Zero = 0 \<and> Normalize_member Zero = Inr Zero \<and> Normalize Zero = Inr Zero \<and>
   Length (mk_Vector3 0 2 0) \<noteq> 0 \<and>
   Normalize_member (mk_Vector3 0 2 0) = Inr (mk_Vector3 0 1 0) \<and>
   Normalize (mk_Vector3 0 2 0) = Inr (mk_Vector3 0 1 0)"
proof -
  have z: "Length Zero = 0"
    by (simp add: Length_zero_iff)
  have l: "Length (mk_Vector3 0 2 0) = 2"
    by (simp add: Length_def LengthSquared_def mk_Vector3_def real_sqrt_mult_self)
  have n: "Length (mk_Vector3 0 2 0) \<noteq> 0"
    using l by simp
  show ?thesis
    using z n l Normalize_never_divides_by_zero [of Zero]
      Normalize_never_divides_by_zero [of "mk_Vector3 0 2 0"]
    by (simp add: mul_assign_def mul_scalar_def mk_Vector3_def)
qed

section \<open>Properties of UpdateLights\<close>

text \<open>
  One turn of the loop: out of bounds it fails; in bounds it returns, an ambient
  light replaces the ambient colour and keeps the index, any other light keeps
  the colour and takes one slot, and no call names \<open>u_AmbientLight\<close>.
\<close>

lemma light_uniforms_nth:
  assumes "idx < length light_uniforms"
  shows "\<exists>d. light_uniforms ! idx = ''u_Lights['' @ d"
proof -
  from assms have "idx < 9" by (simp add: light_uniforms_def)
  then have "idx = 0 \<or> idx = 1 \<or> idx = 2 \<or> idx = 3 \<or> idx = 4 \<or> idx = 5 \<or> idx = 6 \<or> idx = 7 \<or> idx = 8"
    by arith
  then show ?thesis
    by (auto simp: light_uniforms_def)
qed

lemma slot_name_not_ambient:
  assumes "idx < length light_uniforms"
  shows "light_uniforms ! idx @ sfx \<noteq> ''u_AmbientLight''"
proof -
  from light_uniforms_nth [OF assms] obtain d where "light_uniforms ! idx = ''u_Lights['' @ d" ..
  then show ?thesis by simp
qed

lemma UpdateLights_body_out_of_bounds:
  "length light_uniforms \<le> idx \<Longrightarrow>
   UpdateLights_body ext prog camera light (a, idx) = Inl OutOfBounds"
  by (simp add: UpdateLights_body_def)

lemma UpdateLights_body_in_bounds:
  assumes "idx < length light_uniforms"
  shows "\<exists>calls. UpdateLights_body ext prog camera light (a, idx) =
           Inr (if is_ambient light then contribution light else a,
                if is_ambient light then idx else idx + 1, calls) \<and>
           (\<forall>c \<in> set calls. uniform_name c \<noteq> Some ''u_AmbientLight'')"
  using assms slot_name_not_ambient [OF assms]
  by (cases light) (simp_all add: UpdateLights_body_def Let_def is_ambient_def contribution_def)

lemma UpdateLights_loop_result:
  "UpdateLights_loop ext prog camera ls (a, i) = Inr (a', i', calls) \<Longrightarrow>
   a' = ambient_last a ls \<and> i' = i + slots_used ls \<and>
   (\<forall>c \<in> set calls. uniform_name c \<noteq> Some ''u_AmbientLight'')"
proof (induction ls arbitrary: a i a' i' calls)
  case Nil
  then show ?case by (simp add: slots_used_def)
next
  case (Cons l ls)
  show ?case
  proof (cases "i < length light_uniforms")
    case False
    then have "UpdateLights_body ext prog camera l (a, i) = Inl OutOfBounds"
      by (simp add: UpdateLights_body_out_of_bounds)
    with Cons.prems show ?thesis by simp
  next
    case True
    from UpdateLights_body_in_bounds [OF True, of ext prog camera l a]
    obtain cs where b: "UpdateLights_body ext prog camera l (a, i) =
           Inr (if is_ambient l then contribution l else a,
                if is_ambient l then i else i + 1, cs)"
      and n: "\<forall>c \<in> set cs. uniform_name c \<noteq> Some ''u_AmbientLight''"
      by blast
    from Cons.prems b obtain cs' where
      r: "UpdateLights_loop ext prog camera ls (if is_ambient l then contribution l else a,
                if is_ambient l then i else i + 1) = Inr (a', i', cs')"
      and c: "calls = cs @ cs'"
      by (auto split: sum.splits)
    from Cons.IH [OF r] n c show ?thesis
      by (auto simp: slots_used_def)
  qed
qed

lemma ambient_last_no_ambient:
  "filter is_ambient ls = [] \<Longrightarrow> ambient_last a ls = a"
  by (induction ls arbitrary: a) (auto split: if_splits)

lemma color_add_black: "color_add (contribution l) (mk_Color 0 0 0) = contribution l"
  by (simp add: color_add_def contribution_def color_scale_def mk_Color_def)

lemma ambient_last_one:
  "length (filter is_ambient ls) \<le> 1 \<Longrightarrow>
   ambient_last a ls =
     (if filter is_ambient ls = [] then a
      else foldr color_add (map contribution (filter is_ambient ls)) (mk_Color 0 0 0))"
proof (induction ls arbitrary: a)
  case Nil
  then show ?case by simp
next
  case (Cons l ls)
  show ?case
  proof (cases "is_ambient l")
    case True
    with Cons.prems have "filter is_ambient ls = []" by simp
    with True show ?thesis
      by (simp add: ambient_last_no_ambient color_add_black)
  next
    case False
    with Cons show ?thesis by simp
  qed
qed

lemma ambient_last_sum:
  "length (filter is_ambient ls) \<le> 1 \<Longrightarrow>
   ambient_last (mk_Color 0 0 0) ls = ambient_sum ls"
  by (simp add: ambient_last_one ambient_sum_def)

text \<open>
  Claim C2, as amended. Whenever \<open>UpdateLights\<close> returns, \<open>u_AmbientLight\<close> is set
  exactly once, by the last call, and no call on a slot names it. Its value is
  \<open>color \<times> intensity\<close> of the last ambient light of the list, black when the
  list has no ambient light; with at most one ambient light this is the sum of
  the ambient contributions. The loop ends with the slot index at the number of
  lights that are not ambient: an ambient light takes no slot.
\<close>

theorem UpdateLights_ambient:
  assumes "UpdateLights ext prog camera ls = Inr calls"
  shows "\<exists>slot_calls.
           UpdateLights_loop ext prog camera ls (mk_Color 0 0 0, 0) =
             Inr (ambient_last (mk_Color 0 0 0) ls, slots_used ls, slot_calls) \<and>
           calls = slot_calls @
             [SetUniform prog ''u_AmbientLight'' (UColor (ambient_last (mk_Color 0 0 0) ls))] \<and>
           (\<forall>c \<in> set slot_calls. uniform_name c \<noteq> Some ''u_AmbientLight'') \<and>
           (length (filter is_ambient ls) \<le> 1 \<longrightarrow>
              ambient_last (mk_Color 0 0 0) ls = ambient_sum ls)"
proof -
  from assms obtain a i cs where
    l: "UpdateLights_loop ext prog camera ls (mk_Color 0 0 0, 0) = Inr (a, i, cs)"
    and c: "calls = cs @ [SetUniform prog ''u_AmbientLight'' (UColor a)]"
    by (auto simp: UpdateLights_def split: sum.splits)
  from UpdateLights_loop_result [OF l] l c show ?thesis
    by (simp add: ambient_last_sum)
qed

text \<open>
  Claim C2 as stated fails: the body assigns \<open>ambient_light = light_color *
  intensity\<close>, it does not add. With a red and then a green ambient light the
  uniform is green, and the sum is yellow.
\<close>

theorem UpdateLights_ambient_counterexample:
  "UpdateLights test_externals 0 test_camera [red_ambient, green_ambient] =
     Inr [SetUniform 0 ''u_AmbientLight'' (UColor (mk_Color 0 1 0))] \<and>
   ambient_sum [red_ambient, green_ambient] = mk_Color 1 1 0 \<and>
   mk_Color 0 1 0 \<noteq> mk_Color 1 1 0"
  by (simp add: UpdateLights_def UpdateLights_body_def Let_def red_ambient_def green_ambient_def
      ambient_sum_def is_ambient_def contribution_def color_scale_def color_add_def mk_Color_def
      light_uniforms_def)

text \<open>An ambient and a directional light: one slot, the ambient colour set last.\<close>

theorem UpdateLights_ambient_witness:
  "UpdateLights test_externals 0 test_camera [red_ambient, white_directional] =
     Inr [SetUniform 0 ''u_Lights[0].Type'' (UInt 1),
          SetUniform 0 ''u_Lights[0].Color'' (UColor (mk_Color 1 1 1)),
          SetUniform 0 ''u_Lights[0].Direction'' (UVector3 (mk_Vector3 0 0 1)),
          SetUniform 0 ''u_AmbientLight'' (UColor (mk_Color 1 0 0))] \<and>
   ambient_last (mk_Color 0 0 0) [red_ambient, white_directional] = mk_Color 1 0 0 \<and>
   ambient_sum [red_ambient, white_directional] = mk_Color 1 0 0 \<and>
   slots_used [red_ambient, white_directional] = 1"
proof -
  have run: "UpdateLights test_externals 0 test_camera [red_ambient, white_directional] =
     Inr [SetUniform 0 ''u_Lights[0].Type'' (UInt 1),
          SetUniform 0 ''u_Lights[0].Color'' (UColor (mk_Color 1 1 1)),
          SetUniform 0 ''u_Lights[0].Direction'' (UVector3 (mk_Vector3 0 0 1)),
          SetUniform 0 ''u_AmbientLight'' (UColor (mk_Color 1 0 0))]"
    by (simp add: UpdateLights_def UpdateLights_body_def Let_def red_ambient_def
        white_directional_def color_scale_def mk_Color_def light_uniforms_def test_externals_def
        Vector3_of_def mk_Vector4_def mk_Vector3_def)
  from UpdateLights_ambient [OF run] show ?thesis
    using run
    by (simp add: red_ambient_def white_directional_def is_ambient_def contribution_def
        color_scale_def mk_Color_def slots_used_def)
qed

text \<open>
  The slots. On a run of the loop that returns, the lights that are not ambient
  set their types under the names of the slots \<open>i\<close>, \<open>i + 1\<close>, \<open>\<dots>\<close> in the order
  of the list, one slot each, and an index that starts at nine or less ends at
  nine or less. The loop returns if and only if the list is empty or the lights
  before the last one leave a slot free: every light, ambient or not, needs an
  index below nine when its turn comes.
\<close>

lemma type_slots_append: "type_slots (cs @ ds) = type_slots cs @ type_slots ds"
  by (induction cs rule: type_slots.induct) simp_all

lemma UpdateLights_body_slot:
  assumes "idx < length light_uniforms"
  shows "\<exists>calls. UpdateLights_body ext prog camera light (a, idx) =
           Inr (if is_ambient light then contribution light else a,
                if is_ambient light then idx else idx + 1, calls) \<and>
           type_slots calls =
             (if is_ambient light then [] else [light_uniforms ! idx @ ''.Type''])"
  using assms
  by (cases light) (simp_all add: UpdateLights_body_def Let_def is_ambient_def contribution_def)

lemma UpdateLights_loop_slots:
  "UpdateLights_loop ext prog camera ls (a, i) = Inr (a', i', calls) \<Longrightarrow>
   type_slots calls = map (\<lambda>k. light_uniforms ! k @ ''.Type'') [i ..< i + slots_used ls] \<and>
   (i \<le> length light_uniforms \<longrightarrow> i' \<le> length light_uniforms)"
proof (induction ls arbitrary: a i a' i' calls)
  case Nil
  then show ?case by (simp add: slots_used_def)
next
  case (Cons l ls)
  show ?case
  proof (cases "i < length light_uniforms")
    case False
    then have "UpdateLights_body ext prog camera l (a, i) = Inl OutOfBounds"
      by (simp add: UpdateLights_body_out_of_bounds)
    with Cons.prems show ?thesis by simp
  next
    case True
    from UpdateLights_body_slot [OF True, of ext prog camera l a]
    obtain cs where b: "UpdateLights_body ext prog camera l (a, i) =
           Inr (if is_ambient l then contribution l else a,
                if is_ambient l then i else i + 1, cs)"
      and n: "type_slots cs = (if is_ambient l then [] else [light_uniforms ! i @ ''.Type''])"
      by blast
    from Cons.prems b obtain cs' where
      r: "UpdateLights_loop ext prog camera ls (if is_ambient l then contribution l else a,
                if is_ambient l then i else i + 1) = Inr (a', i', cs')"
      and c: "calls = cs @ cs'"
      by (auto split: sum.splits)
    from Cons.IH [OF r] n c True show ?thesis
      by (auto simp: slots_used_def type_slots_append upt_rec [of i])
  qed
qed

lemma UpdateLights_loop_returns_iff:
  "(\<exists>res. UpdateLights_loop ext prog camera ls (a, i) = Inr res) \<longleftrightarrow>
   (ls = [] \<or> i + slots_used (butlast ls) < length light_uniforms)"
proof (induction ls arbitrary: a i)
  case Nil
  show ?case by simp
next
  case (Cons l ls)
  show ?case
  proof (cases "i < length light_uniforms")
    case False
    then have "UpdateLights_body ext prog camera l (a, i) = Inl OutOfBounds"
      by (simp add: UpdateLights_body_out_of_bounds)
    with False show ?thesis by simp
  next
    case True
    from UpdateLights_body_slot [OF True, of ext prog camera l a]
    obtain cs where b: "UpdateLights_body ext prog camera l (a, i) =
           Inr (if is_ambient l then contribution l else a,
                if is_ambient l then i else i + 1, cs)"
      by blast
    let ?a = "if is_ambient l then contribution l else a"
    let ?i = "if is_ambient l then i else i + 1"
    have "(\<exists>res. UpdateLights_loop ext prog camera (l # ls) (a, i) = Inr res) \<longleftrightarrow>
          (\<exists>res. UpdateLights_loop ext prog camera ls (?a, ?i) = Inr res)"
      using b by (auto split: sum.splits)
    also have "\<dots> \<longleftrightarrow> (ls = [] \<or> ?i + slots_used (butlast ls) < length light_uniforms)"
      by (rule Cons.IH)
    also have "\<dots> \<longleftrightarrow> i + slots_used (butlast (l # ls)) < length light_uniforms"
      using True by (auto simp: slots_used_def)
    finally show ?thesis by simp
  qed
qed

text \<open>
  Claim C3. The claim is that with at most nine lights that are not ambient every
  access to the nine names of \<open>light_uniforms\<close> is in bounds. The code reads
  \<open>light_uniforms[idx]\<close> at the top of the loop body for every light, so after nine
  directional lights have taken the slots 0 to 8 an ambient light that follows
  reads \<open>light_uniforms[9]\<close>.
\<close>

theorem UpdateLights_ninth_slot_overrun:
  "slots_used (nine_directional @ [red_ambient]) = 9 \<and>
   UpdateLights test_externals 0 test_camera (nine_directional @ [red_ambient]) = Inl OutOfBounds"
  by (simp add: UpdateLights_def UpdateLights_body_def Let_def red_ambient_def
      white_directional_def nine_directional_def slots_used_def is_ambient_def light_uniforms_def)

text \<open>Every call that \<open>UpdateLights\<close> makes sets a uniform.\<close>

lemma UpdateLights_body_uniforms:
  "UpdateLights_body ext prog camera light st = Inr (a, i, calls) \<Longrightarrow>
   \<forall>c \<in> set calls. uniform_name c \<noteq> None"
  by (cases st; cases light)
    (auto simp: UpdateLights_body_def Let_def split: if_splits)

lemma UpdateLights_loop_uniforms:
  "UpdateLights_loop ext prog camera ls st = Inr (a, i, calls) \<Longrightarrow>
   \<forall>c \<in> set calls. uniform_name c \<noteq> None"
proof (induction ls arbitrary: st a i calls)
  case Nil
  then show ?case by simp
next
  case (Cons l ls)
  from Cons.prems obtain a1 i1 cs1 a2 i2 cs2 where
    b: "UpdateLights_body ext prog camera l st = Inr (a1, i1, cs1)"
    and r: "UpdateLights_loop ext prog camera ls (a1, i1) = Inr (a2, i2, cs2)"
    and c: "calls = cs1 @ cs2"
    by (auto split: sum.splits)
  from UpdateLights_body_uniforms [OF b] Cons.IH [OF r] c show ?case
    by auto
qed

lemma UpdateLights_no_rebuild:
  assumes "UpdateLights ext prog camera ls = Inr calls"
  shows "ProcessScene_call \<notin> set calls"
proof
  assume bad: "ProcessScene_call \<in> set calls"
  from assms obtain a i cs where
    l: "UpdateLights_loop ext prog camera ls (mk_Color 0 0 0, 0) = Inr (a, i, cs)"
    and c: "calls = cs @ [SetUniform prog ''u_AmbientLight'' (UColor a)]"
    by (auto simp: UpdateLights_def split: sum.splits)
  from bad c have "ProcessScene_call \<in> set cs" by simp
  with UpdateLights_loop_uniforms [OF l] have "uniform_name ProcessScene_call \<noteq> None"
    by blast
  then show False by simp
qed

section \<open>Properties of GetProgram\<close>







section \<open>Properties of SetUniforms\<close>

text \<open>
  The definitions to unfold when the model is run on the concrete inputs.
\<close>

lemmas test_defs = test_externals_def test_attributes_def test_frustum_def test_camera_def
  test_geometry_def flat_mesh_def phong_mesh_def shader_mesh_def disposed_mesh_def
  boundary_mesh_def far_mesh_def test_scene_def test_renderer_def listed_renderer_def
  empty_programs_def

lemmas model_defs = RenderObjects_def RenderMesh_def RenderMesh_draw_def IsValidMesh_def
  IsVisible_def IntersectsWithSphere_def DistanceToPoint_def Dot_def GetProgram_def IsValid_def
  GLProgram_Id_def SetUniforms_def SetUniforms_common_def SetUniforms_fog_def
  SetUniforms_flat_def SetUniforms_phong_def SetUniforms_shader_def SetUniforms_texture_def
  SetDepthMask_def UseProgram_def mk_Vector3_def mk_Color_def Let_def

text \<open>
  The names that the first two blocks of \<open>SetUniforms\<close> set, and the calls made
  for a Phong material.
\<close>

lemma calls_then_Inr:
  "calls_then a b = Inr cs \<Longrightarrow> \<exists>x y. a = Inr x \<and> b = Inr y \<and> cs = x @ y"
  by (cases a; cases b) auto

lemma common_names:
  "c \<in> set (SetUniforms_common ext r prog mesh camera) \<Longrightarrow>
   uniform_name c \<in> {Some ''u_Projection'', Some ''u_ModelView'', Some ''u_Opacity'',
     Some ''u_Resolution''}"
  by (auto simp: SetUniforms_common_def Let_def)

lemma fog_names:
  "c \<in> set (SetUniforms_fog ext prog scene) \<Longrightarrow>
   uniform_name c \<in> {Some ''u_Fog.Type'', Some ''u_Fog.Color'', Some ''u_Fog.Near'',
     Some ''u_Fog.Far'', Some ''u_Fog.Density''}"
  by (auto simp: SetUniforms_fog_def Let_def split: option.splits if_splits)

lemma SetUniforms_phong_calls:
  assumes "attrs_type attrs = MaterialType_PhongMaterial"
    and "material mesh = PhongMaterial op col spec shin tex"
    and "attrs_texture_map attrs \<longrightarrow> tex \<noteq> None"
  shows "SetUniforms ext r prog attrs mesh camera scene =
     Inr (SetUniforms_common ext r prog mesh camera @ SetUniforms_fog ext prog scene @
       (if directional_lights attrs \<or> point_lights attrs \<or> spot_lights attrs then
          [SetUniform prog ''u_Material.DiffuseColor'' (UColor col),
           SetUniform prog ''u_Material.SpecularColor'' (UColor spec),
           SetUniform prog ''u_Material.Shininess'' (UFloat shin)] @
          (if \<not> flat_shaded attrs then
             [SetUniformIfExists prog ''u_NormalMatrix''
                (UMatrix3 (Transpose ext (Inverse ext (Matrix3_of ext
                   (Matrix4_mul ext (view_transform camera) (GetWorldTransform mesh))))))]
           else [])
        else []) @
       (if attrs_texture_map attrs then
          [SetUniform prog ''u_TextureMap'' (UInt 0),
           SetUniform prog ''u_TextureTransform'' (UMatrix3 (GetTransform (the tex))),
           textures_Bind (the tex)]
        else []))"
  using assms
  by (cases tex)
    (simp_all add: SetUniforms_def SetUniforms_flat_def SetUniforms_phong_def
      SetUniforms_shader_def SetUniforms_texture_def Let_def)

text \<open>
  Claim C7, as amended. For a mesh with a Phong material (and a texture when the
  attributes say so) \<open>SetUniforms\<close> returns. If the attributes flag a directional,
  point or spot light, it sets the diffuse colour, the specular colour and the
  shininess of the material, and, unless the attributes are flat shaded, sets the
  normal matrix (if the program has that uniform) to the transpose of the inverse
  of the 3\<times>3 block of the model-view matrix, the view transform of the camera
  times the world transform of the mesh; flat shaded, no call names the normal
  matrix. If the attributes flag none of these lights, none of the four uniforms
  is set. The texture slot and the texture transform are set, and the texture
  bound, if the attributes say the material is textured, lights or no lights.
\<close>

theorem SetUniforms_phong_material:
  assumes ty: "attrs_type attrs = MaterialType_PhongMaterial"
    and mat: "material mesh = PhongMaterial op col spec shin tex"
    and tx: "attrs_texture_map attrs \<longrightarrow> tex \<noteq> None"
  shows "\<exists>calls. SetUniforms ext r prog attrs mesh camera scene = Inr calls \<and>
     (directional_lights attrs \<or> point_lights attrs \<or> spot_lights attrs \<longrightarrow>
        SetUniform prog ''u_Material.DiffuseColor'' (UColor col) \<in> set calls \<and>
        SetUniform prog ''u_Material.SpecularColor'' (UColor spec) \<in> set calls \<and>
        SetUniform prog ''u_Material.Shininess'' (UFloat shin) \<in> set calls \<and>
        (\<not> flat_shaded attrs \<longrightarrow>
           SetUniformIfExists prog ''u_NormalMatrix''
             (UMatrix3 (Transpose ext (Inverse ext (Matrix3_of ext
                (Matrix4_mul ext (view_transform camera) (GetWorldTransform mesh))))))
           \<in> set calls) \<and>
        (flat_shaded attrs \<longrightarrow>
           (\<forall>c \<in> set calls. uniform_name c \<noteq> Some ''u_NormalMatrix''))) \<and>
     (\<not> (directional_lights attrs \<or> point_lights attrs \<or> spot_lights attrs) \<longrightarrow>
        (\<forall>c \<in> set calls.
           uniform_name c \<notin> {Some ''u_Material.DiffuseColor'', Some ''u_Material.SpecularColor'',
             Some ''u_Material.Shininess'', Some ''u_NormalMatrix''})) \<and>
     (attrs_texture_map attrs \<longrightarrow>
        (\<exists>t. tex = Some t \<and>
           SetUniform prog ''u_TextureMap'' (UInt 0) \<in> set calls \<and>
           SetUniform prog ''u_TextureTransform'' (UMatrix3 (GetTransform t)) \<in> set calls \<and>
           textures_Bind t \<in> set calls))"
proof -
  note c = SetUniforms_phong_calls [OF ty mat tx, of ext r prog camera scene]
  have n: "uniform_name c \<notin> {Some ''u_Material.DiffuseColor'', Some ''u_Material.SpecularColor'',
             Some ''u_Material.Shininess'', Some ''u_NormalMatrix''}"
    if "c \<in> set (SetUniforms_common ext r prog mesh camera) \<union>
            set (SetUniforms_fog ext prog scene)" for c
    using that common_names [of c ext r prog mesh camera] fog_names [of c ext prog scene]
    by auto
  show ?thesis
    unfolding c using tx n
    by (cases tex) (auto split: if_splits)
qed

text \<open>
  Claim C7 as stated fails for a Phong mesh in a scene with no directional, point
  or spot light: the mesh is drawn, and \<open>SetUniforms\<close> sets only the four uniforms
  of every draw.
\<close>

theorem SetUniforms_phong_material_counterexample:
  "material phong_mesh = PhongMaterial (1 / 2) (mk_Color 1 1 1) (mk_Color 0 0 1) 32 None \<and>
   ProgramAttributes_of test_externals (material phong_mesh) (render_lists test_renderer)
     test_scene = unlit_phong_attrs \<and>
   SetUniforms test_externals test_renderer 0 unlit_phong_attrs phong_mesh test_camera test_scene =
     Inr [SetUniformIfExists 0 ''u_Projection'' (UMatrix4 []),
          SetUniformIfExists 0 ''u_ModelView'' (UMatrix4 []),
          SetUniformIfExists 0 ''u_Opacity'' (UFloat (1 / 2)),
          SetUniformIfExists 0 ''u_Resolution'' (UVector2 \<lparr>v2_x = 800, v2_y = 600\<rparr>)] \<and>
   map_sum id (\<lambda>r. draws (trace r))
     (RenderMesh test_externals test_renderer phong_mesh test_scene test_camera) =
     Inr [(phong_mesh, True)]"
  by (simp add: model_defs test_defs unlit_phong_attrs_def)

text \<open>
  A textured Phong material under a directional light.
\<close>

theorem SetUniforms_phong_material_witness:
  "SetUniforms test_externals test_renderer 0 lit_phong_attrs textured_phong_mesh test_camera
     test_scene =
     Inr [SetUniformIfExists 0 ''u_Projection'' (UMatrix4 []),
          SetUniformIfExists 0 ''u_ModelView'' (UMatrix4 []),
          SetUniformIfExists 0 ''u_Opacity'' (UFloat 1),
          SetUniformIfExists 0 ''u_Resolution'' (UVector2 \<lparr>v2_x = 800, v2_y = 600\<rparr>),
          SetUniform 0 ''u_Material.DiffuseColor'' (UColor (mk_Color 1 1 1)),
          SetUniform 0 ''u_Material.SpecularColor'' (UColor (mk_Color 0 0 1)),
          SetUniform 0 ''u_Material.Shininess'' (UFloat 32),
          SetUniformIfExists 0 ''u_NormalMatrix'' (UMatrix3 []),
          SetUniform 0 ''u_TextureMap'' (UInt 0),
          SetUniform 0 ''u_TextureTransform'' (UMatrix3 [1, 0, 0, 0, 1, 0, 0, 0, 1]),
          textures_Bind \<lparr>texture_id = 7, GetTransform = [1, 0, 0, 0, 1, 0, 0, 0, 1]\<rparr>] \<and>
   SetUniform 0 ''u_Material.DiffuseColor'' (UColor (mk_Color 1 1 1)) \<in>
     set (projr (SetUniforms test_externals test_renderer 0 lit_phong_attrs textured_phong_mesh
       test_camera test_scene))"
proof -
  have ty: "attrs_type lit_phong_attrs = MaterialType_PhongMaterial"
    by (simp add: lit_phong_attrs_def)
  have mat: "material textured_phong_mesh =
      PhongMaterial 1 (mk_Color 1 1 1) (mk_Color 0 0 1) 32
        (Some \<lparr>texture_id = 7, GetTransform = [1, 0, 0, 0, 1, 0, 0, 0, 1]\<rparr>)"
    by (simp add: textured_phong_mesh_def)
  have tx: "attrs_texture_map lit_phong_attrs \<longrightarrow>
      Some \<lparr>texture_id = 7, GetTransform = [1, 0, 0, 0, 1, 0, 0, 0, 1]\<rparr> \<noteq> None"
    by simp
  have lit: "directional_lights lit_phong_attrs"
    by (simp add: lit_phong_attrs_def)
  have run: "SetUniforms test_externals test_renderer 0 lit_phong_attrs textured_phong_mesh
     test_camera test_scene =
     Inr [SetUniformIfExists 0 ''u_Projection'' (UMatrix4 []),
          SetUniformIfExists 0 ''u_ModelView'' (UMatrix4 []),
          SetUniformIfExists 0 ''u_Opacity'' (UFloat 1),
          SetUniformIfExists 0 ''u_Resolution'' (UVector2 \<lparr>v2_x = 800, v2_y = 600\<rparr>),
          SetUniform 0 ''u_Material.DiffuseColor'' (UColor (mk_Color 1 1 1)),
          SetUniform 0 ''u_Material.SpecularColor'' (UColor (mk_Color 0 0 1)),
          SetUniform 0 ''u_Material.Shininess'' (UFloat 32),
          SetUniformIfExists 0 ''u_NormalMatrix'' (UMatrix3 []),
          SetUniform 0 ''u_TextureMap'' (UInt 0),
          SetUniform 0 ''u_TextureTransform'' (UMatrix3 [1, 0, 0, 0, 1, 0, 0, 0, 1]),
          textures_Bind \<lparr>texture_id = 7, GetTransform = [1, 0, 0, 0, 1, 0, 0, 0, 1]\<rparr>]"
    by (simp add: model_defs test_defs lit_phong_attrs_def textured_phong_mesh_def)
  from SetUniforms_phong_material [OF ty mat tx, of test_externals test_renderer 0 test_camera
      test_scene] lit
  have "SetUniform 0 ''u_Material.DiffuseColor'' (UColor (mk_Color 1 1 1)) \<in>
     set (projr (SetUniforms test_externals test_renderer 0 lit_phong_attrs textured_phong_mesh
       test_camera test_scene))"
    by auto
  with run show ?thesis by simp
qed

text \<open>
  \<open>SetUniforms\<close> and \<open>UpdateLights\<close> make no call of \<open>ProcessScene\<close>.
\<close>

lemma SetUniforms_texture_no_rebuild:
  "SetUniforms_texture prog tex = Inr cs \<Longrightarrow> ProcessScene_call \<notin> set cs"
  by (auto simp: SetUniforms_texture_def split: option.splits)

lemma SetUniforms_flat_no_rebuild:
  "SetUniforms_flat prog attrs mat = Inr cs \<Longrightarrow> ProcessScene_call \<notin> set cs"
  by (auto simp: SetUniforms_flat_def split: if_splits Material.splits
      dest!: calls_then_Inr SetUniforms_texture_no_rebuild)

lemma SetUniforms_phong_no_rebuild:
  "SetUniforms_phong ext prog attrs mat mv = Inr cs \<Longrightarrow> ProcessScene_call \<notin> set cs"
  by (auto simp: SetUniforms_phong_def split: if_splits Material.splits
      dest!: calls_then_Inr SetUniforms_texture_no_rebuild)

lemma SetUniforms_shader_no_rebuild:
  "SetUniforms_shader prog attrs mat = Inr cs \<Longrightarrow> ProcessScene_call \<notin> set cs"
  by (auto simp: SetUniforms_shader_def split: if_splits Material.splits)

lemma SetUniforms_no_rebuild:
  assumes "SetUniforms ext r prog attrs mesh camera scene = Inr cs"
  shows "ProcessScene_call \<notin> set cs"
proof -
  from assms obtain c1 c2 c3 c4 c5 where
    "cs = c1 @ c2 @ c3 @ c4 @ c5"
    "c1 = SetUniforms_common ext r prog mesh camera"
    "c2 = SetUniforms_fog ext prog scene"
    "SetUniforms_flat prog attrs (material mesh) = Inr c3"
    "SetUniforms_phong ext prog attrs (material mesh)
       (Matrix4_mul ext (view_transform camera) (GetWorldTransform mesh)) = Inr c4"
    "SetUniforms_shader prog attrs (material mesh) = Inr c5"
    unfolding SetUniforms_def Let_def
    by (auto dest!: calls_then_Inr)
  then show ?thesis
    using common_names [of ProcessScene_call ext r prog mesh camera]
      fog_names [of ProcessScene_call ext prog scene]
    by (auto dest: SetUniforms_flat_no_rebuild SetUniforms_phong_no_rebuild
        SetUniforms_shader_no_rebuild)
qed

section \<open>Properties of RenderMesh\<close>

text \<open>
  The ways through \<open>RenderMesh\<close>: an invalid mesh, an invisible one, a null
  program, an invalid program, and a draw. A run that returns leaves the render
  lists, the frustum and the parameters alone, and either makes no call or makes
  the calls of one draw, the draw call last.
\<close>

lemma RenderMesh_invalid:
  "\<not> fst (IsValidMesh mesh) \<Longrightarrow>
   RenderMesh ext r mesh scene camera = Inr (r\<lparr>logger := logger r @ snd (IsValidMesh mesh)\<rparr>)"
  by (cases "IsValidMesh mesh") (simp add: RenderMesh_def Let_def)

lemma IsValidMesh_valid: "fst (IsValidMesh mesh) \<Longrightarrow> snd (IsValidMesh mesh) = []"
  by (simp add: IsValidMesh_def Let_def split: if_splits)

lemma IsVisible_logger: "IsVisible ext (r\<lparr>logger := l\<rparr>) mesh = IsVisible ext r mesh"
  by (simp add: IsVisible_def)

lemma RenderMesh_invisible:
  "fst (IsValidMesh mesh) \<Longrightarrow> \<not> IsVisible ext r mesh \<Longrightarrow>
   RenderMesh ext r mesh scene camera = Inr r"
  using IsValidMesh_valid [of mesh]
  by (cases "IsValidMesh mesh") (simp add: RenderMesh_def Let_def IsVisible_logger)

lemma RenderMesh_null_program:
  "fst (IsValidMesh mesh) \<Longrightarrow> IsVisible ext r mesh \<Longrightarrow>
   fst (GetProgram ext (Impl_programs r)
          (ProgramAttributes_of ext (material mesh) (render_lists r) scene)) = None \<Longrightarrow>
   RenderMesh ext r mesh scene camera = Inl NullDereference"
  using IsValidMesh_valid [of mesh]
  by (cases "IsValidMesh mesh")
    (auto simp: RenderMesh_def Let_def IsVisible_logger split: prod.splits)

lemma RenderMesh_draw_result:
  assumes "RenderMesh_draw ext r p prog attrs mesh scene camera = Inr r'"
  shows "\<exists>calls draw.
           r' = r\<lparr>state := UseProgram (GLProgram_Id prog) (ProcessMaterial ext (material mesh) (state r)),
                  trace := trace r @ map Call calls @
                    [Draw mesh (UseProgram (GLProgram_Id prog)
                       (ProcessMaterial ext (material mesh) (state r))) draw],
                  rendered_objects_counter := rendered_objects_counter r + 1\<rparr>"
proof -
  let ?r2 = "r\<lparr>state := ProcessMaterial ext (material mesh) (state r)\<rparr>"
  obtain lc where lc: "(if lights attrs \<and> Lights (render_lists ?r2) \<noteq> []
                then UpdateLights ext p camera (Lights (render_lists ?r2))
                else Inr []) = Inr lc"
    using assms by (cases "(if lights attrs \<and> Lights (render_lists ?r2) \<noteq> []
                then UpdateLights ext p camera (Lights (render_lists ?r2))
                else Inr [])") (simp_all add: RenderMesh_draw_def Let_def)
  obtain uc where uc: "SetUniforms ext ?r2 p attrs mesh camera scene = Inr uc"
    using assms lc by (cases "SetUniforms ext ?r2 p attrs mesh camera scene")
      (simp_all add: RenderMesh_draw_def Let_def)
  let ?draw = "(if IndexData (geometry mesh) = []
               then glDrawArrays
                     (if primitive (geometry mesh) = LineLoop then GL_LINE_LOOP
                      else if primitive (geometry mesh) = Lines then GL_LINES else GL_TRIANGLES)
                     0 (VertexCount (geometry mesh))
               else glDrawElements
                     (if primitive (geometry mesh) = LineLoop then GL_LINE_LOOP
                      else if primitive (geometry mesh) = Lines then GL_LINES else GL_TRIANGLES)
                     (length (IndexData (geometry mesh))))"
  from assms lc uc show ?thesis
    by (intro exI [of _ "lc @ [buffers_Bind (geometry mesh)] @ uc @ [UpdateUniforms p]"]
        exI [of _ ?draw])
      (auto simp: RenderMesh_draw_def Let_def)
qed

lemma RenderMesh_cases:
  assumes "RenderMesh ext r mesh scene camera = Inr r'"
  shows "(\<exists>l. r' = r\<lparr>logger := l\<rparr>) \<or>
         (\<exists>ps l. r' = r\<lparr>Impl_programs := ps, logger := l\<rparr>) \<or>
         (\<exists>ps l p prog attrs.
            RenderMesh_draw ext (r\<lparr>Impl_programs := ps, logger := l\<rparr>) p prog attrs mesh scene
              camera = Inr r')"
proof (cases "IsValidMesh mesh")
  case (Pair valid warnings)
  let ?r0 = "r\<lparr>logger := logger r @ warnings\<rparr>"
  let ?attrs = "ProgramAttributes_of ext (material mesh) (render_lists ?r0) scene"
  show ?thesis
  proof (cases "valid \<and> IsVisible ext ?r0 mesh")
    case False
    with assms Pair have "r' = ?r0"
      by (cases valid) (simp_all add: RenderMesh_def Let_def)
    then show ?thesis by blast
  next
    case True
    obtain prog ps entries where g: "GetProgram ext (Impl_programs ?r0) ?attrs = (prog, ps, entries)"
      by (cases "GetProgram ext (Impl_programs ?r0) ?attrs") auto
    let ?r1 = "r\<lparr>Impl_programs := ps, logger := logger ?r0 @ entries\<rparr>"
    from assms Pair True g obtain p where p: "prog = Some p" "p < length (objects ps)"
      by (cases prog) (auto simp: RenderMesh_def Let_def split: if_splits)
    show ?thesis
    proof (cases "IsValid (objects ps ! p)")
      case False
      with assms Pair True g p have "r' = ?r1"
        by (simp add: RenderMesh_def Let_def)
      then show ?thesis by blast
    next
      case v: True
      with assms Pair True g p
      have "RenderMesh_draw ext ?r1 p (objects ps ! p) ?attrs mesh scene camera = Inr r'"
        by (simp add: RenderMesh_def Let_def)
      then show ?thesis by blast
    qed
  qed
qed

lemma RenderMesh_result:
  assumes "RenderMesh ext r mesh scene camera = Inr r'"
  shows "render_lists r' = render_lists r \<and> frustum r' = frustum r \<and> params r' = params r \<and>
         ((trace r' = trace r \<and> rendered_objects_counter r' = rendered_objects_counter r \<and>
           state r' = state r) \<or>
          (\<exists>calls draw i.
             trace r' = trace r @ map Call calls @ [Draw mesh (state r') draw] \<and>
             rendered_objects_counter r' = rendered_objects_counter r + 1 \<and>
             state r' = UseProgram i (ProcessMaterial ext (material mesh) (state r))))"
proof (cases "IsValidMesh mesh")
  case (Pair valid warnings)
  let ?r0 = "r\<lparr>logger := logger r @ warnings\<rparr>"
  let ?attrs = "ProgramAttributes_of ext (material mesh) (render_lists ?r0) scene"
  show ?thesis
  proof (cases "valid \<and> IsVisible ext ?r0 mesh")
    case False
    with assms Pair have "r' = ?r0"
      by (cases valid) (simp_all add: RenderMesh_def Let_def)
    then show ?thesis by simp
  next
    case True
    obtain prog ps entries where g: "GetProgram ext (Impl_programs ?r0) ?attrs = (prog, ps, entries)"
      by (cases "GetProgram ext (Impl_programs ?r0) ?attrs") auto
    let ?r1 = "?r0\<lparr>Impl_programs := ps, logger := logger ?r0 @ entries\<rparr>"
    from assms Pair True g obtain p where p: "prog = Some p" "p < length (objects ps)"
      by (cases prog) (auto simp: RenderMesh_def Let_def split: if_splits)
    show ?thesis
    proof (cases "IsValid (objects ps ! p)")
      case False
      with assms Pair True g p have "r' = ?r1"
        by (simp add: RenderMesh_def Let_def)
      then show ?thesis by simp
    next
      case v: True
      with assms Pair True g p
      have "RenderMesh_draw ext ?r1 p (objects ps ! p) ?attrs mesh scene camera = Inr r'"
        by (simp add: RenderMesh_def Let_def)
      from RenderMesh_draw_result [OF this] obtain calls draw where
        "r' = ?r1\<lparr>state := UseProgram (GLProgram_Id (objects ps ! p))
                      (ProcessMaterial ext (material mesh) (state ?r1)),
                  trace := trace ?r1 @ map Call calls @
                    [Draw mesh (UseProgram (GLProgram_Id (objects ps ! p))
                       (ProcessMaterial ext (material mesh) (state ?r1))) draw],
                  rendered_objects_counter := rendered_objects_counter ?r1 + 1\<rparr>"
        by blast
      then show ?thesis by auto
    qed
  qed
qed

text \<open>
  Claim C6. For a mesh whose geometry is disposed, or has no vertex data, or has
  no attributes, \<open>RenderMesh\<close> returns with the renderer as it was but for one
  warning more in the log, the one of the first of the three conditions that
  holds: no call is made, so no draw call, and the counter of rendered objects
  is not incremented. The loop over the meshes goes on with the next mesh.
\<close>

theorem RenderMesh_skips_invalid_mesh:
  assumes "Disposed (geometry mesh) \<or> VertexData (geometry mesh) = [] \<or>
           Attributes (geometry mesh) = []"
  shows "\<exists>r'. RenderMesh ext r mesh scene camera = Inr r' \<and>
           trace r' = trace r \<and> draws (trace r') = draws (trace r) \<and>
           rendered_objects_counter r' = rendered_objects_counter r \<and>
           logger r' = logger r @
             [Log Warning
                (if Disposed (geometry mesh)
                   then ''Skipped rendering a mesh with disposed geometry {}''
                 else if VertexData (geometry mesh) = []
                   then ''Skipped rendering a mesh with no geometry data {}''
                 else ''Skipped rendering a mesh with no geometry attributes {}'')
                (LogMesh mesh)] \<and>
           r' = r\<lparr>logger := logger r'\<rparr> \<and>
           RenderMeshes ext r (mesh # rest) scene camera = RenderMeshes ext r' rest scene camera"
proof -
  from assms have inv: "\<not> fst (IsValidMesh mesh)"
    by (auto simp: IsValidMesh_def Let_def)
  from assms have w: "snd (IsValidMesh mesh) =
     [Log Warning
                (if Disposed (geometry mesh)
                   then ''Skipped rendering a mesh with disposed geometry {}''
                 else if VertexData (geometry mesh) = []
                   then ''Skipped rendering a mesh with no geometry data {}''
                 else ''Skipped rendering a mesh with no geometry attributes {}'')
                (LogMesh mesh)]"
    by (auto simp: IsValidMesh_def Let_def)
  from RenderMesh_invalid [OF inv, of ext r scene camera] w show ?thesis
    by simp
qed

text \<open>
  A mesh with disposed geometry.
\<close>

theorem RenderMesh_skips_invalid_mesh_witness:
  "Disposed (geometry disposed_mesh) \<and>
   RenderMesh test_externals test_renderer disposed_mesh test_scene test_camera =
     Inr (test_renderer\<lparr>logger :=
            [Log Warning ''Skipped rendering a mesh with disposed geometry {}''
               (LogMesh disposed_mesh)]\<rparr>) \<and>
   RenderMeshes test_externals test_renderer [disposed_mesh] test_scene test_camera =
     Inr (test_renderer\<lparr>logger :=
            [Log Warning ''Skipped rendering a mesh with disposed geometry {}''
               (LogMesh disposed_mesh)]\<rparr>)"
proof -
  have d: "Disposed (geometry disposed_mesh)"
    by (simp add: disposed_mesh_def)
  then have h: "Disposed (geometry disposed_mesh) \<or> VertexData (geometry disposed_mesh) = [] \<or>
           Attributes (geometry disposed_mesh) = []"
    by simp
  have l: "logger test_renderer = []"
    by (simp add: test_renderer_def)
  from RenderMesh_skips_invalid_mesh [OF h, of test_externals test_renderer test_scene test_camera "[]"]
    d l show ?thesis
    by auto
qed

text \<open>
  Claim C1. The claim is that a null program is treated like an invalid one: the
  draw is skipped and the frame goes on. \<open>RenderMesh\<close> calls \<open>program->IsValid()\<close>
  with no test for \<open>nullptr\<close>. Here the shader library has no sources for the key
  of a valid and visible mesh, \<open>GetProgram\<close> returns \<open>nullptr\<close>, and \<open>RenderMesh\<close>
  dereferences it; the mesh after it in the list is not rendered.
\<close>

theorem RenderMesh_null_program_crash:
  "fst (IsValidMesh shader_mesh) \<and> IsVisible test_externals test_renderer shader_mesh \<and>
   GetProgram test_externals (Impl_programs test_renderer)
     (ProgramAttributes_of test_externals (material shader_mesh) (render_lists test_renderer)
        test_scene) =
     (None, empty_programs\<lparr>shader_lib_requests := [shader_attrs]\<rparr>, []) \<and>
   RenderMesh test_externals test_renderer shader_mesh test_scene test_camera =
     Inl NullDereference \<and>
   RenderMeshes test_externals test_renderer [shader_mesh, flat_mesh] test_scene test_camera =
     Inl NullDereference"
  by (simp add: model_defs test_defs shader_attrs_def)

text \<open>
  Claim C9. \<open>IsVisible\<close> holds if and only if, for each of the six planes of the
  frustum, the signed distance of the plane to the centre of the bounding sphere,
  transformed by the world transform of the mesh, is at least minus the radius
  (so a distance of exactly minus the radius counts as visible). A mesh that is
  not visible is skipped: \<open>RenderMesh\<close> returns with no call made and the counter
  as it was.
\<close>

theorem IsVisible_all_planes:
  "(IsVisible ext r mesh \<longleftrightarrow>
      (\<forall>p \<in> set (planes (frustum r)).
         - radius (ApplyTransform ext (BoundingSphere (geometry mesh)) (GetWorldTransform mesh))
           \<le> DistanceToPoint p
               (center (ApplyTransform ext (BoundingSphere (geometry mesh))
                  (GetWorldTransform mesh))))) \<and>
   length (planes (frustum r)) = 6 \<and>
   (\<not> IsVisible ext r mesh \<longrightarrow>
      (\<exists>r'. RenderMesh ext r mesh scene camera = Inr r' \<and> trace r' = trace r \<and>
            rendered_objects_counter r' = rendered_objects_counter r))"
proof -
  have six: "length (planes (frustum r)) = 6"
    by (cases "frustum r") simp
  have skip: "\<exists>r'. RenderMesh ext r mesh scene camera = Inr r' \<and> trace r' = trace r \<and>
            rendered_objects_counter r' = rendered_objects_counter r"
    if "\<not> IsVisible ext r mesh"
  proof (cases "fst (IsValidMesh mesh)")
    case True
    from RenderMesh_invisible [OF True that] show ?thesis by simp
  next
    case False
    from RenderMesh_invalid [OF False] show ?thesis by simp
  qed
  from six skip show ?thesis
    by (simp add: IsVisible_def IntersectsWithSphere_def Let_def list_all_iff)
qed

text \<open>
  A sphere that touches one plane from behind, at distance exactly minus the
  radius, is visible; one further out is not, and its mesh is skipped.
\<close>

theorem IsVisible_all_planes_witness:
  "IsVisible test_externals test_renderer boundary_mesh \<and>
   DistanceToPoint \<lparr>normal = mk_Vector3 (-1) 0 0, distance = 1\<rparr>
     (center (BoundingSphere (geometry boundary_mesh))) =
     - radius (BoundingSphere (geometry boundary_mesh)) \<and>
   \<not> IsVisible test_externals test_renderer far_mesh \<and>
   RenderMesh test_externals test_renderer far_mesh test_scene test_camera = Inr test_renderer"
proof -
  have b: "\<forall>p \<in> set (planes (frustum test_renderer)).
         - radius (ApplyTransform test_externals (BoundingSphere (geometry boundary_mesh))
             (GetWorldTransform boundary_mesh))
           \<le> DistanceToPoint p
               (center (ApplyTransform test_externals (BoundingSphere (geometry boundary_mesh))
                  (GetWorldTransform boundary_mesh)))"
    by (simp add: test_defs DistanceToPoint_def Dot_def mk_Vector3_def)
  have e: "DistanceToPoint \<lparr>normal = mk_Vector3 (-1) 0 0, distance = 1\<rparr>
     (center (BoundingSphere (geometry boundary_mesh))) =
     - radius (BoundingSphere (geometry boundary_mesh))"
    by (simp add: test_defs DistanceToPoint_def Dot_def mk_Vector3_def)
  have f: "\<not> (\<forall>p \<in> set (planes (frustum test_renderer)).
         - radius (ApplyTransform test_externals (BoundingSphere (geometry far_mesh))
             (GetWorldTransform far_mesh))
           \<le> DistanceToPoint p
               (center (ApplyTransform test_externals (BoundingSphere (geometry far_mesh))
                  (GetWorldTransform far_mesh))))"
    by (simp add: test_defs DistanceToPoint_def Dot_def mk_Vector3_def)
  have run: "RenderMesh test_externals test_renderer far_mesh test_scene test_camera =
      Inr test_renderer"
    by (simp add: model_defs test_defs)
  from IsVisible_all_planes [of test_externals test_renderer boundary_mesh test_scene test_camera]
    IsVisible_all_planes [of test_externals test_renderer far_mesh test_scene test_camera]
    b e f run
  show ?thesis
    by blast
qed

section \<open>Properties of RenderObjects\<close>













text \<open>
  The condition on \<open>ProcessMaterial\<close> is needed. With a state tracker that enables
  depth writes for every material, the transparent mesh of the same frame is
  drawn with depth writes enabled.
\<close>

lemma RenderObjects_mask_of_material:
  "map_sum id (\<lambda>r. draws (trace r))
     (RenderObjects masking_externals listed_renderer test_scene test_camera) =
     Inr [(flat_mesh, True), (phong_mesh, True)]"
  by (simp add: model_defs test_defs masking_externals_def)

section \<open>Properties of Render\<close>

text \<open>
  \<open>RenderObjects\<close> does not call \<open>ProcessScene\<close> and does not change the render
  lists.
\<close>

lemma scene_rebuilds_append: "scene_rebuilds (es @ fs) = scene_rebuilds es + scene_rebuilds fs"
  by (simp add: scene_rebuilds_def)

lemma scene_rebuilds_calls:
  "ProcessScene_call \<notin> set cs \<Longrightarrow> scene_rebuilds (map Call cs) = 0"
  by (auto simp: scene_rebuilds_def filter_map o_def filter_empty_conv)

lemma RenderMesh_draw_rebuilds:
  assumes "RenderMesh_draw ext r p prog attrs mesh scene camera = Inr r'"
  shows "scene_rebuilds (trace r') = scene_rebuilds (trace r)"
proof -
  let ?r2 = "r\<lparr>state := ProcessMaterial ext (material mesh) (state r)\<rparr>"
  obtain lc where lc: "(if lights attrs \<and> Lights (render_lists ?r2) \<noteq> []
                then UpdateLights ext p camera (Lights (render_lists ?r2))
                else Inr []) = Inr lc"
    using assms by (cases "(if lights attrs \<and> Lights (render_lists ?r2) \<noteq> []
                then UpdateLights ext p camera (Lights (render_lists ?r2))
                else Inr [])") (simp_all add: RenderMesh_draw_def Let_def)
  obtain uc where uc: "SetUniforms ext ?r2 p attrs mesh camera scene = Inr uc"
    using assms lc by (cases "SetUniforms ext ?r2 p attrs mesh camera scene")
      (simp_all add: RenderMesh_draw_def Let_def)
  from lc have nl: "ProcessScene_call \<notin> set lc"
    by (auto split: if_splits dest: UpdateLights_no_rebuild)
  from SetUniforms_no_rebuild [OF uc] have nu: "ProcessScene_call \<notin> set uc" .
  from assms lc uc have
    "trace r' = trace r @ map Call lc @ [Call (buffers_Bind (geometry mesh))] @ map Call uc @
       [Call (UpdateUniforms p)] @
       [Draw mesh (UseProgram (GLProgram_Id prog)
          (ProcessMaterial ext (material mesh) (state r)))
         (if IndexData (geometry mesh) = []
               then glDrawArrays
                     (if primitive (geometry mesh) = LineLoop then GL_LINE_LOOP
                      else if primitive (geometry mesh) = Lines then GL_LINES else GL_TRIANGLES)
                     0 (VertexCount (geometry mesh))
               else glDrawElements
                     (if primitive (geometry mesh) = LineLoop then GL_LINE_LOOP
                      else if primitive (geometry mesh) = Lines then GL_LINES else GL_TRIANGLES)
                     (length (IndexData (geometry mesh))))]"
    by (auto simp: RenderMesh_draw_def Let_def)
  then show ?thesis
    using scene_rebuilds_calls [OF nl] scene_rebuilds_calls [OF nu]
    by (simp add: scene_rebuilds_def)
qed

lemma RenderMesh_rebuilds:
  assumes "RenderMesh ext r mesh scene camera = Inr r'"
  shows "scene_rebuilds (trace r') = scene_rebuilds (trace r) \<and> render_lists r' = render_lists r"
  using RenderMesh_cases [OF assms] RenderMesh_result [OF assms]
  by (auto dest!: RenderMesh_draw_rebuilds)

lemma RenderMeshes_rebuilds:
  "RenderMeshes ext r ms scene camera = Inr r' \<Longrightarrow>
   scene_rebuilds (trace r') = scene_rebuilds (trace r) \<and> render_lists r' = render_lists r"
proof (induction ms arbitrary: r)
  case Nil
  then show ?case by simp
next
  case (Cons m ms)
  from Cons.prems obtain r1 where
    one: "RenderMesh ext r m scene camera = Inr r1"
    and rest: "RenderMeshes ext r1 ms scene camera = Inr r'"
    by (auto split: sum.splits)
  from RenderMesh_rebuilds [OF one] Cons.IH [OF rest] show ?case
    by simp
qed

lemma RenderObjects_rebuilds:
  assumes run: "RenderObjects ext r scene camera = Inr r'"
  shows "scene_rebuilds (trace r') = scene_rebuilds (trace r) \<and> render_lists r' = render_lists r"
proof -
  let ?r0 = "r\<lparr>frustum := SetWithViewProjection ext
                   (Matrix4_mul ext (projection_transform camera) (view_transform camera))\<rparr>"
  from run obtain r1 where
    o: "RenderMeshes ext ?r0 (Opaque (render_lists r)) scene camera = Inr r1"
    by (cases "RenderMeshes ext ?r0 (Opaque (render_lists r)) scene camera")
      (simp_all add: RenderObjects_def Let_def)
  let ?r2 = "if Transparent (render_lists r1) \<noteq> []
             then r1\<lparr>state := SetDepthMask False (state r1)\<rparr> else r1"
  from run o obtain r3 where
    t: "RenderMeshes ext ?r2 (Transparent (render_lists ?r2)) scene camera = Inr r3"
    by (cases "RenderMeshes ext ?r2 (Transparent (render_lists ?r2)) scene camera")
      (simp_all add: RenderObjects_def Let_def)
  from run o t have r': "r' = r3\<lparr>state := SetDepthMask True (state r3),
      rendered_objects_per_frame := rendered_objects_counter r3, rendered_objects_counter := 0\<rparr>"
    by (simp add: RenderObjects_def Let_def)
  from RenderMeshes_rebuilds [OF o] RenderMeshes_rebuilds [OF t] r' show ?thesis
    by (simp split: if_splits)
qed

text \<open>
  Claim C8. \<open>Render\<close> reads the flag \<open>touched_\<close> once the scene has updated its
  transforms. If the flag is set, \<open>ProcessScene\<close> is called once and gives the new
  render lists; if it is not, \<open>ProcessScene\<close> is not called and the render lists
  are those of the frame before. After the rebuild the flag is clear. What follows
  in \<open>Render\<close>, the call of \<open>RenderObjects\<close>, neither calls \<open>ProcessScene\<close> nor
  changes the render lists or the flag.
\<close>

theorem Render_rebuilds_iff_touched:
  assumes "Render_rebuild ext r scene camera = (r0, scene0, camera0)"
  shows "(touched (UpdateTransformHierarchy ext scene) \<longrightarrow>
            render_lists r0 =
              ProcessScene ext (render_lists r) (UpdateTransformHierarchy ext scene) \<and>
            scene_rebuilds (trace r0) = scene_rebuilds (trace r) + 1) \<and>
         (\<not> touched (UpdateTransformHierarchy ext scene) \<longrightarrow>
            render_lists r0 = render_lists r \<and>
            scene_rebuilds (trace r0) = scene_rebuilds (trace r)) \<and>
         \<not> touched scene0 \<and>
         (\<forall>r1 scene1 camera1.
            Render ext r scene camera = Inr (r1, scene1, camera1) \<longrightarrow>
            scene1 = scene0 \<and> render_lists r1 = render_lists r0 \<and>
            scene_rebuilds (trace r1) = scene_rebuilds (trace r0))"
proof -
  have after: "scene1 = scene0 \<and> render_lists r1 = render_lists r0 \<and>
            scene_rebuilds (trace r1) = scene_rebuilds (trace r0)"
    if "Render ext r scene camera = Inr (r1, scene1, camera1)" for r1 scene1 camera1
  proof -
    from that assms have "RenderObjects ext r0 scene0 camera0 = Inr r1" and "scene1 = scene0"
      by (auto simp: Render_def split: sum.splits)
    with RenderObjects_rebuilds [of ext r0 scene0 camera0 r1] show ?thesis
      by simp
  qed
  from assms have
    "(touched (UpdateTransformHierarchy ext scene) \<longrightarrow>
            render_lists r0 =
              ProcessScene ext (render_lists r) (UpdateTransformHierarchy ext scene) \<and>
            scene_rebuilds (trace r0) = scene_rebuilds (trace r) + 1) \<and>
         (\<not> touched (UpdateTransformHierarchy ext scene) \<longrightarrow>
            render_lists r0 = render_lists r \<and>
            scene_rebuilds (trace r0) = scene_rebuilds (trace r)) \<and>
         \<not> touched scene0"
    by (auto simp: Render_rebuild_def Let_def scene_rebuilds_def split: if_splits)
  with after show ?thesis
    by blast
qed

text \<open>
  A touched scene, whose lists are rebuilt, and the same scene untouched.
\<close>

theorem Render_rebuilds_iff_touched_witness:
  "touched (UpdateTransformHierarchy test_externals test_scene) \<and>
   render_lists (fst (Render_rebuild test_externals test_renderer test_scene test_camera)) =
     \<lparr>Opaque = [flat_mesh], Transparent = [phong_mesh], Lights = []\<rparr> \<and>
   scene_rebuilds (trace (fst (Render_rebuild test_externals test_renderer test_scene
     test_camera))) = 1 \<and>
   \<not> touched (UpdateTransformHierarchy test_externals untouched_scene) \<and>
   render_lists (fst (Render_rebuild test_externals listed_renderer untouched_scene test_camera)) =
     render_lists listed_renderer \<and>
   scene_rebuilds (trace (fst (Render_rebuild test_externals listed_renderer untouched_scene
     test_camera))) = 0 \<and>
   (\<exists>r1. Render test_externals test_renderer test_scene test_camera =
      Inr (r1, test_scene\<lparr>touched := False\<rparr>, test_camera) \<and>
      render_lists r1 = \<lparr>Opaque = [flat_mesh], Transparent = [phong_mesh], Lights = []\<rparr> \<and>
      scene_rebuilds (trace r1) = 1)"
proof -
  have t: "touched (UpdateTransformHierarchy test_externals test_scene)"
    by (simp add: test_defs)
  have u: "\<not> touched (UpdateTransformHierarchy test_externals untouched_scene)"
    by (simp add: test_defs untouched_scene_def)
  obtain r0 scene0 camera0 where
    a: "Render_rebuild test_externals test_renderer test_scene test_camera = (r0, scene0, camera0)"
    by (cases "Render_rebuild test_externals test_renderer test_scene test_camera") auto
  obtain q0 qscene0 qcamera0 where
    b: "Render_rebuild test_externals listed_renderer untouched_scene test_camera =
          (q0, qscene0, qcamera0)"
    by (cases "Render_rebuild test_externals listed_renderer untouched_scene test_camera") auto
  have p: "ProcessScene test_externals (render_lists test_renderer)
        (UpdateTransformHierarchy test_externals test_scene) =
      \<lparr>Opaque = [flat_mesh], Transparent = [phong_mesh], Lights = []\<rparr>"
    by (simp add: test_externals_def test_scene_def flat_mesh_def phong_mesh_def Let_def)
  have z: "scene_rebuilds (trace test_renderer) = 0" "scene_rebuilds (trace listed_renderer) = 0"
    by (simp_all add: scene_rebuilds_def test_renderer_def listed_renderer_def)
  have s0: "scene0 = test_scene\<lparr>touched := False\<rparr>" "camera0 = test_camera"
    using a by (auto simp: Render_rebuild_def Let_def test_externals_def test_scene_def)
  have run: "\<exists>r1. Render test_externals test_renderer test_scene test_camera =
      Inr (r1, test_scene\<lparr>touched := False\<rparr>, test_camera)"
    by (simp add: Render_def Render_rebuild_def model_defs test_defs)
  then obtain r1 where r1: "Render test_externals test_renderer test_scene test_camera =
      Inr (r1, test_scene\<lparr>touched := False\<rparr>, test_camera)" ..
  from Render_rebuilds_iff_touched [OF a] Render_rebuilds_iff_touched [OF b] a b t u p z r1
  show ?thesis
    by auto
qed

end
